theory Spec2Isabelle
  imports Complex_Main "HOL-Library.Word"
begin

chapter \<open>TOON serializer and deserializer: a shallow embedding\<close>

text \<open>
  The development follows the TypeScript sources: \<^verbatim>\<open>constants.ts\<close>, \<^verbatim>\<open>string-utils.ts\<close>,
  \<^verbatim>\<open>validation-utils.ts\<close>, \<^verbatim>\<open>normalize.ts\<close>, \<^verbatim>\<open>utils.ts\<close>, \<^verbatim>\<open>encode.ts\<close> and
  \<^verbatim>\<open>decode.ts\<close>. Every exported or internal function that a property below depends on
  is translated under its own name; a loop becomes a recursive function over the part of
  the input that is still to be read, and every \<^verbatim>\<open>throw\<close> becomes an \<open>Inl\<close> result.
\<close>

section \<open>Host strings\<close>

text \<open>
  A string of the host is a sequence of 16-bit code units, and the built-in string
  operations used by the sources work on code units. \<open>ascii\<close> writes a string that
  consists of ASCII characters. \<^verbatim>\<open>String.prototype.trim\<close>, \<^verbatim>\<open>Number\<close>, \<^verbatim>\<open>parseInt\<close> and
  \<^verbatim>\<open>parseFloat\<close> remove the white space and line terminator code units: the five controls
  from U+0009 to U+000D, the space separators of Unicode (U+0020, U+00A0, U+1680, U+2000 to
  U+200A, U+202F, U+205F, U+3000), the line and paragraph separators U+2028 and U+2029, and
  the byte order mark U+FEFF.
\<close>

type_synonym code_unit = "16 word"

type_synonym jsstring = "code_unit list"

primrec ascii :: "string \<Rightarrow> jsstring" where
  "ascii [] = []"
| "ascii (c # cs) = of_char c # ascii cs"

definition isWhiteSpace :: "code_unit \<Rightarrow> bool" where
  "isWhiteSpace c =
     (c \<in> set [0x0009, 0x000A, 0x000B, 0x000C, 0x000D, 0x0020, 0x00A0, 0x1680,
               0x2000, 0x2001, 0x2002, 0x2003, 0x2004, 0x2005, 0x2006, 0x2007, 0x2008,
               0x2009, 0x200A, 0x2028, 0x2029, 0x202F, 0x205F, 0x3000, 0xFEFF])"

definition trimStart :: "jsstring \<Rightarrow> jsstring" where
  "trimStart s = dropWhile isWhiteSpace s"

definition trimEnd :: "jsstring \<Rightarrow> jsstring" where
  "trimEnd s = rev (dropWhile isWhiteSpace (rev s))"

definition trim :: "jsstring \<Rightarrow> jsstring" where
  "trim s = trimEnd (trimStart s)"

primrec index_of :: "code_unit \<Rightarrow> jsstring \<Rightarrow> nat option" where
  "index_of c [] = None"
| "index_of c (x # xs) = (if x = c then Some 0 else map_option Suc (index_of c xs))"

definition indexOf :: "jsstring \<Rightarrow> code_unit \<Rightarrow> nat \<Rightarrow> nat option" where
  \<comment> \<open>\<^verbatim>\<open>s.indexOf(c, start)\<close>; \<open>None\<close> stands for the result \<^verbatim>\<open>-1\<close>.\<close>
  "indexOf s c start = map_option (\<lambda>i. i + start) (index_of c (drop start s))"

definition slice :: "jsstring \<Rightarrow> nat \<Rightarrow> nat \<Rightarrow> jsstring" where
  \<comment> \<open>\<^verbatim>\<open>s.slice(a, b)\<close> for non-negative \<open>a\<close> and \<open>b\<close>.\<close>
  "slice s a b = take (b - a) (drop a s)"

definition startsWith :: "jsstring \<Rightarrow> jsstring \<Rightarrow> bool" where
  "startsWith s p = (take (length p) s = p)"

definition endsWith :: "jsstring \<Rightarrow> code_unit \<Rightarrow> bool" where
  "endsWith s c = (s \<noteq> [] \<and> last s = c)"

definition includes_char :: "jsstring \<Rightarrow> code_unit \<Rightarrow> bool" where
  "includes_char s c = (c \<in> set s)"

fun split_on :: "code_unit \<Rightarrow> jsstring \<Rightarrow> jsstring list" where
  \<comment> \<open>\<^verbatim>\<open>s.split(c)\<close>: always at least one piece.\<close>
  "split_on c [] = [[]]"
| "split_on c (x # xs) =
     (if x = c then [] # split_on c xs
      else (case split_on c xs of [] \<Rightarrow> [[x]] | r # rs \<Rightarrow> (x # r) # rs))"

definition replaceAll :: "code_unit \<Rightarrow> jsstring \<Rightarrow> jsstring \<Rightarrow> jsstring" where
  \<comment> \<open>\<^verbatim>\<open>s.replace(/c/g, r)\<close> for a one-character pattern.\<close>
  "replaceAll c r s = concat (map (\<lambda>x. if x = c then r else [x]) s)"

definition join :: "jsstring \<Rightarrow> jsstring list \<Rightarrow> jsstring" where
  "join sep xs = (case xs of [] \<Rightarrow> [] | y # ys \<Rightarrow> y @ concat (map (\<lambda>z. sep @ z) ys))"

definition isDigit :: "code_unit \<Rightarrow> bool" where
  "isDigit c = (c \<in> set (ascii ''0123456789''))"

definition isLetter :: "code_unit \<Rightarrow> bool" where
  "isLetter c = (c \<in> set (ascii ''ABCDEFGHIJKLMNOPQRSTUVWXYZabcdefghijklmnopqrstuvwxyz''))"

definition digit_value :: "code_unit \<Rightarrow> nat" where
  "digit_value c = unat c - 48"

definition digits_value :: "jsstring \<Rightarrow> nat" where
  "digits_value s = foldl (\<lambda>acc c. 10 * acc + digit_value c) 0 s"

fun nat_to_string :: "nat \<Rightarrow> jsstring" where
  "nat_to_string n =
     (if n < 10 then [of_nat (48 + n)]
      else nat_to_string (n div 10) @ [of_nat (48 + n mod 10)])"

definition int_to_string :: "int \<Rightarrow> jsstring" where
  "int_to_string i = (if i < 0 then (of_char CHR ''-'') # nat_to_string (nat (- i)) else nat_to_string (nat i))"

subsection \<open>Constants (\<^verbatim>\<open>constants.ts\<close>)\<close>

text \<open>
  The one-character constants are given by their code units: \<^verbatim>\<open>,\<close> is 0x2C, \<^verbatim>\<open>:\<close> is 0x3A,
  the space is 0x20, \<^verbatim>\<open>|\<close> is 0x7C, \<^verbatim>\<open>#\<close> is 0x23, \<^verbatim>\<open>[\<close> and \<^verbatim>\<open>]\<close> are 0x5B and 0x5D, the
  braces are 0x7B and 0x7D, the backslash is 0x5C and the double quote 0x22.
\<close>

abbreviation LIST_ITEM_MARKER :: jsstring where "LIST_ITEM_MARKER \<equiv> ascii ''-''"
abbreviation LIST_ITEM_PREFIX :: jsstring where "LIST_ITEM_PREFIX \<equiv> ascii ''- ''"
abbreviation COMMA :: code_unit where "COMMA \<equiv> 0x2C"
abbreviation COLON :: code_unit where "COLON \<equiv> 0x3A"
abbreviation SPACE :: code_unit where "SPACE \<equiv> 0x20"
abbreviation PIPE :: code_unit where "PIPE \<equiv> 0x7C"
abbreviation HASH :: code_unit where "HASH \<equiv> 0x23"
abbreviation OPEN_BRACKET :: code_unit where "OPEN_BRACKET \<equiv> 0x5B"
abbreviation CLOSE_BRACKET :: code_unit where "CLOSE_BRACKET \<equiv> 0x5D"
abbreviation OPEN_BRACE :: code_unit where "OPEN_BRACE \<equiv> 0x7B"
abbreviation CLOSE_BRACE :: code_unit where "CLOSE_BRACE \<equiv> 0x7D"
abbreviation NULL_LITERAL :: jsstring where "NULL_LITERAL \<equiv> ascii ''null''"
abbreviation TRUE_LITERAL :: jsstring where "TRUE_LITERAL \<equiv> ascii ''true''"
abbreviation FALSE_LITERAL :: jsstring where "FALSE_LITERAL \<equiv> ascii ''false''"
abbreviation BACKSLASH :: code_unit where "BACKSLASH \<equiv> 0x5C"
abbreviation DOUBLE_QUOTE :: code_unit where "DOUBLE_QUOTE \<equiv> 0x22"
abbreviation NEWLINE :: code_unit where "NEWLINE \<equiv> 0x0A"
abbreviation CARRIAGE_RETURN :: code_unit where "CARRIAGE_RETURN \<equiv> 0x0D"
abbreviation TAB :: code_unit where "TAB \<equiv> 0x09"
abbreviation (input) DEFAULT_DELIMITER :: code_unit where "DEFAULT_DELIMITER \<equiv> COMMA"
abbreviation (input) DEFAULT_INDENT_SIZE :: nat where "DEFAULT_INDENT_SIZE \<equiv> 2"

section \<open>Host numbers\<close>

text \<open>
  A number is an IEEE-754 double. The model keeps the five classes that the sources
  distinguish (\<^verbatim>\<open>Object.is(v, -0)\<close>, \<^verbatim>\<open>Number.isFinite\<close>, \<^verbatim>\<open>Number.isNaN\<close>) and gives
  a finite number other than \<open>-0\<close> by the rational it is equal to. A decimal literal is
  rounded to the nearest double, ties to the even significand: 53 bits for a normal
  number, steps of \<open>2^-1074\<close> below \<open>2^-1022\<close>, an infinity from \<open>2^1024 - 2^970\<close> on.
\<close>

datatype number = NaN | PosInfinity | NegInfinity | NegZero | Finite rat

definition isFinite :: "number \<Rightarrow> bool" where
  "isFinite n = (case n of Finite r \<Rightarrow> True | NegZero \<Rightarrow> True | _ \<Rightarrow> False)"

definition isNaN :: "number \<Rightarrow> bool" where
  "isNaN n = (n = NaN)"

fun bit_length :: "nat \<Rightarrow> nat" where
  \<comment> \<open>the number of binary digits of \<open>n\<close>\<close>
  "bit_length n = (if n = 0 then 0 else Suc (bit_length (n div 2)))"

declare bit_length.simps [simp del]

definition binary_exponent :: "nat \<Rightarrow> nat \<Rightarrow> int" where
  \<comment> \<open>for \<open>a > 0\<close> and \<open>b > 0\<close>, the \<open>e\<close> with \<open>2^e \<le> a / b < 2^(e+1)\<close>\<close>
  "binary_exponent a b =
     (if b \<le> a then int (bit_length (a div b)) - 1
      else - int (bit_length ((b + a - 1) div a - 1)))"

definition round_half_even :: "nat \<Rightarrow> nat \<Rightarrow> nat" where
  \<comment> \<open>the integer nearest to \<open>a / b\<close>, the even one of two\<close>
  "round_half_even a b =
     (let f = a div b; r = a mod b
      in if 2 * r < b then f else if b < 2 * r then f + 1 else if even f then f else f + 1)"

definition round_number :: "bool \<Rightarrow> nat \<Rightarrow> nat \<Rightarrow> number" where
  \<comment> \<open>the double for a decimal of sign \<open>neg\<close> and magnitude \<open>a / b\<close>: the significand \<open>m\<close>
      is the magnitude in units of \<open>2^k\<close>, rounded\<close>
  "round_number neg a b =
     (if a = 0 then (if neg then NegZero else Finite 0)
      else
        (let k = max (binary_exponent a b - 52) (- 1074);
             m = (if 0 \<le> k then round_half_even a (b * 2 ^ nat k)
                  else round_half_even (a * 2 ^ nat (- k)) b);
             r = of_nat m * 2 powi k
         in if 2 ^ 1024 \<le> r then (if neg then NegInfinity else PosInfinity)
            else if m = 0 then (if neg then NegZero else Finite 0)
            else Finite (if neg then - r else r)))"

definition exponentPart :: "jsstring \<Rightarrow> int option" where
  \<comment> \<open>\<^verbatim>\<open>ExponentPart\<close> of the numeric string grammar, or nothing at all\<close>
  "exponentPart r =
     (case r of
        [] \<Rightarrow> Some 0
      | c # r' \<Rightarrow>
          if c = (of_char CHR ''e'') \<or> c = (of_char CHR ''E'') then
            (let neg = startsWith r' (ascii ''-'');
                 ds = (if startsWith r' (ascii ''-'') \<or> startsWith r' (ascii ''+'') then drop 1 r' else r')
             in if ds \<noteq> [] \<and> list_all isDigit ds
                then Some (if neg then - int (digits_value ds) else int (digits_value ds))
                else None)
          else None)"

definition strUnsignedDecimalLiteral :: "jsstring \<Rightarrow> (nat \<times> nat) option" where
  \<comment> \<open>digits with an optional fraction and exponent: \<^verbatim>\<open>D+ . D* E?\<close>, \<^verbatim>\<open>. D+ E?\<close>, \<^verbatim>\<open>D+ E?\<close>;
      the result is the numerator and the denominator of the decimal\<close>
  "strUnsignedDecimalLiteral u =
     (let ip = takeWhile isDigit u;
          r1 = dropWhile isDigit u;
          dot = startsWith r1 (ascii ''.'');
          fp = (if dot then takeWhile isDigit (drop 1 r1) else []);
          r2 = (if dot then dropWhile isDigit (drop 1 r1) else r1)
      in if ip = [] \<and> fp = [] then None
         else (case exponentPart r2 of
                 None \<Rightarrow> None
               | Some e \<Rightarrow>
                   (let x = e - int (length fp)
                    in if 0 \<le> x then Some (digits_value (ip @ fp) * 10 ^ nat x, 1)
                       else Some (digits_value (ip @ fp), 10 ^ nat (- x)))))"

definition strDecimalLiteral :: "jsstring \<Rightarrow> number option" where
  "strDecimalLiteral t =
     (let neg = startsWith t (ascii ''-'');
          u = (if startsWith t (ascii ''-'') \<or> startsWith t (ascii ''+'') then drop 1 t else t)
      in if u = (ascii ''Infinity'') then Some (if neg then NegInfinity else PosInfinity)
         else map_option (\<lambda>(a, b). round_number neg a b) (strUnsignedDecimalLiteral u))"

definition nonDecimalIntegerLiteral :: "jsstring \<Rightarrow> nat option" where
  \<comment> \<open>\<^verbatim>\<open>0x\<close>, \<^verbatim>\<open>0o\<close> and \<^verbatim>\<open>0b\<close> literals\<close>
  "nonDecimalIntegerLiteral t =
     (let pre = take 2 t; ds = drop 2 t;
          hexv = (\<lambda>c. if isDigit c then digit_value c
                        else if c \<in> set (ascii ''abcdef'') then unat c - 87 else unat c - 55);
          val = (\<lambda>b. foldl (\<lambda>acc c. b * acc + hexv c) 0 ds)
      in if ds = [] then None
         else if pre \<in> set [(ascii ''0x''), (ascii ''0X'')] \<and> list_all (\<lambda>c. c \<in> set (ascii ''0123456789abcdefABCDEF'')) ds
           then Some (val 16)
         else if pre \<in> set [(ascii ''0o''), (ascii ''0O'')] \<and> list_all (\<lambda>c. c \<in> set (ascii ''01234567'')) ds
           then Some (val 8)
         else if pre \<in> set [(ascii ''0b''), (ascii ''0B'')] \<and> list_all (\<lambda>c. c \<in> set (ascii ''01'')) ds
           then Some (val 2)
         else None)"

definition Number_of_string :: "jsstring \<Rightarrow> number" where
  \<comment> \<open>\<^verbatim>\<open>Number(s)\<close> for a string argument\<close>
  "Number_of_string s =
     (let t = trim s
      in if t = [] then Finite 0
         else (case nonDecimalIntegerLiteral t of
                 Some n \<Rightarrow> round_number False n 1
               | None \<Rightarrow> (case strDecimalLiteral t of Some v \<Rightarrow> v | None \<Rightarrow> NaN)))"

definition parseFloat :: "jsstring \<Rightarrow> number" where
  \<comment> \<open>\<^verbatim>\<open>Number.parseFloat(s)\<close>: the longest prefix, after leading white space, that is a
      decimal literal\<close>
  "parseFloat s =
     (let t = trimStart s
      in (case List.map_filter (\<lambda>n. strDecimalLiteral (take n t)) (rev [0..<Suc (length t)]) of
            [] \<Rightarrow> NaN
          | v # _ \<Rightarrow> v))"

definition parseInt :: "jsstring \<Rightarrow> int option" where
  \<comment> \<open>\<^verbatim>\<open>Number.parseInt(s, 10)\<close>; \<open>None\<close> stands for \<^verbatim>\<open>NaN\<close>. Leading white space is
      skipped, one sign is read, then the longest run of decimal digits; what follows the
      digits is ignored.\<close>
  "parseInt s =
     (let t = trimStart s;
          neg = startsWith t (ascii ''-'');
          u = (if startsWith t (ascii ''-'') \<or> startsWith t (ascii ''+'') then drop 1 t else t);
          ds = takeWhile isDigit u
      in if ds = [] then None
         else Some (if neg then - int (digits_value ds) else int (digits_value ds)))"

section \<open>Host values\<close>

text \<open>
  The values \<^verbatim>\<open>serialize\<close> can be given, as trees. \<open>Obj p kvs\<close> is an object with
  prototype \<open>p\<close> and own enumerable string-keyed properties \<open>kvs\<close> in enumeration order;
  a plain object has prototype \<open>ObjectPrototype\<close> or \<open>NullPrototype\<close>. \<open>Date s\<close> is a
  valid date with \<^verbatim>\<open>toISOString()\<close> equal to \<open>s\<close>; \<open>MapV\<close> lists a map's entries with
  each key already converted by \<^verbatim>\<open>String(k)\<close>; \<open>Other\<close> stands for \<^verbatim>\<open>undefined\<close>, a
  function or a symbol. Arrays are dense. Values that share or repeat a container by
  reference are the subject of the section on values in the store.
\<close>

datatype 'v prototype = ObjectPrototype | NullPrototype | CustomPrototype 'v

datatype jsvalue =
    Null
  | Bool bool
  | Num number
  | Str jsstring
  | Arr "jsvalue list"
  | Obj "jsvalue prototype" "(jsstring \<times> jsvalue) list"
  | BigInt int
  | Date jsstring
  | SetV "jsvalue list"
  | MapV "(jsstring \<times> jsvalue) list"
  | Other

subsection \<open>Property definition and assignment\<close>

text \<open>
  The own property keys of an object are enumerated with the array indices first, in
  ascending order, and then the other keys in the order of their creation. An array
  index is the canonical decimal form of an integer from 0 to \<open>2^32 - 2\<close>.
\<close>

definition array_index :: "jsstring \<Rightarrow> nat option" where
  \<comment> \<open>a property key that is a canonical array index\<close>
  "array_index k =
     (if k \<noteq> [] \<and> list_all isDigit k \<and> nat_to_string (digits_value k) = k
         \<and> digits_value k < 4294967295
      then Some (digits_value k) else None)"

definition index_below :: "nat \<Rightarrow> jsstring \<times> jsvalue \<Rightarrow> bool" where
  \<comment> \<open>the property's key is an array index smaller than \<open>i\<close>\<close>
  "index_below i kv = (case array_index (fst kv) of Some j \<Rightarrow> j < i | None \<Rightarrow> False)"

definition is_index :: "jsstring \<times> jsvalue \<Rightarrow> bool" where
  "is_index kv = (array_index (fst kv) \<noteq> None)"

definition define_own :: "(jsstring \<times> jsvalue) list \<Rightarrow> jsstring \<Rightarrow> jsvalue \<Rightarrow> (jsstring \<times> jsvalue) list" where
  \<comment> \<open>\<^verbatim>\<open>CreateDataProperty\<close>: an existing own property keeps its place; a new array index
      goes after the smaller indices and before every other key; any other new key goes
      last\<close>
  "define_own kvs k v =
     (if k \<in> set (map fst kvs) then map (\<lambda>(k', v'). if k' = k then (k', v) else (k', v')) kvs
      else (case array_index k of
              Some i \<Rightarrow> takeWhile (index_below i) kvs @ [(k, v)] @ dropWhile (index_below i) kvs
            | None \<Rightarrow> kvs @ [(k, v)]))"

fun finds_proto_accessor :: "jsvalue \<Rightarrow> bool" where
  \<comment> \<open>looking \<^verbatim>\<open>__proto__\<close> up from this object along the prototype chain ends at the
      accessor of \<^verbatim>\<open>Object.prototype\<close>\<close>
  "finds_proto_accessor (Obj p kvs) =
     (if (ascii ''__proto__'') \<in> set (map fst kvs) then False
      else (case p of
              ObjectPrototype \<Rightarrow> True
            | NullPrototype \<Rightarrow> False
            | CustomPrototype v \<Rightarrow> finds_proto_accessor v))"
| "finds_proto_accessor v = True"

definition set_property :: "jsvalue \<Rightarrow> jsstring \<Rightarrow> jsvalue \<Rightarrow> jsvalue" where
  \<comment> \<open>the assignment \<^verbatim>\<open>obj[key] = value\<close> on an object. Every inherited property of the
      built-in prototypes is a writable data property, so the assignment creates or
      updates an own property, with one exception: \<^verbatim>\<open>__proto__\<close> is an accessor of
      \<^verbatim>\<open>Object.prototype\<close>, whose setter replaces the prototype when the value is an object
      or \<^verbatim>\<open>null\<close> and does nothing for any other value.\<close>
  "set_property obj k v =
     (case obj of
        Obj p kvs \<Rightarrow>
          if k = (ascii ''__proto__'') \<and> k \<notin> set (map fst kvs) \<and> finds_proto_accessor obj then
            (case v of
               Null \<Rightarrow> Obj NullPrototype kvs
             | Arr xs \<Rightarrow> Obj (CustomPrototype v) kvs
             | Obj q ys \<Rightarrow> Obj (CustomPrototype v) kvs
             | Date s \<Rightarrow> Obj (CustomPrototype v) kvs
             | SetV xs \<Rightarrow> Obj (CustomPrototype v) kvs
             | MapV es \<Rightarrow> Obj (CustomPrototype v) kvs
             | _ \<Rightarrow> obj)
          else Obj p (define_own kvs k v)
      | _ \<Rightarrow> obj)"

definition Object_keys :: "jsvalue \<Rightarrow> jsstring list" where
  "Object_keys v = (case v of Obj p kvs \<Rightarrow> map fst kvs | _ \<Rightarrow> [])"

definition get_own :: "jsvalue \<Rightarrow> jsstring \<Rightarrow> jsvalue" where
  \<comment> \<open>\<^verbatim>\<open>value[key]\<close> for a key among \<^verbatim>\<open>Object.keys(value)\<close>\<close>
  "get_own v k = (case v of Obj p kvs \<Rightarrow> (case map_of kvs k of Some x \<Rightarrow> x | None \<Rightarrow> Other) | _ \<Rightarrow> Other)"

section \<open>Normalization (\<^verbatim>\<open>normalize.ts\<close>)\<close>

definition isPlainObject :: "jsvalue \<Rightarrow> bool" where
  "isPlainObject v =
     (case v of Obj p kvs \<Rightarrow> (case p of CustomPrototype q \<Rightarrow> False | _ \<Rightarrow> True) | _ \<Rightarrow> False)"

abbreviation MAX_SAFE_INTEGER :: int where "MAX_SAFE_INTEGER \<equiv> 9007199254740991"
abbreviation MIN_SAFE_INTEGER :: int where "MIN_SAFE_INTEGER \<equiv> - 9007199254740991"

fun normalizeValue :: "jsvalue \<Rightarrow> jsvalue" where
  "normalizeValue Null = Null"
| "normalizeValue (Str s) = Str s"
| "normalizeValue (Bool b) = Bool b"
| "normalizeValue (Num n) =
     (if n = NegZero then Num (Finite 0)
      else if \<not> isFinite n then Null
      else Num n)"
| "normalizeValue (BigInt i) =
     (if MIN_SAFE_INTEGER \<le> i \<and> i \<le> MAX_SAFE_INTEGER then Num (Finite (of_int i))
      else Str (int_to_string i))"
| "normalizeValue (Date s) = Str s"
| "normalizeValue (Arr xs) = Arr (map normalizeValue xs)"
| "normalizeValue (SetV xs) = Arr (map normalizeValue xs)"
| "normalizeValue (MapV es) =
     Obj ObjectPrototype
       (fold (\<lambda>(k, v) kvs. define_own kvs k (normalizeValue v)) es [])"
| "normalizeValue (Obj p kvs) =
     (if isPlainObject (Obj p kvs)
      then fold (\<lambda>(k, v) result. set_property result k (normalizeValue v)) kvs
             (Obj ObjectPrototype [])
      else Null)"
| "normalizeValue Other = Null"

section \<open>Errors\<close>

text \<open>
  One constructor for each \<^verbatim>\<open>throw\<close> of the sources. \<open>CircularReference\<close> is the
  \<^verbatim>\<open>SerializeError\<close> of \<^verbatim>\<open>serialize\<close>; \<open>EmptyInput\<close> is the \<^verbatim>\<open>TypeError\<close> "Cannot decode
  empty input" of \<^verbatim>\<open>deserialize\<close>; \<open>CountMismatch expected itemType actual\<close> is the
  \<^verbatim>\<open>RangeError\<close> of \<^verbatim>\<open>assertExpectedCount\<close>; \<open>NoContent\<close> and \<open>ExpectedListItem\<close> are the
  two \<^verbatim>\<open>ReferenceError\<close>s; \<open>InvalidArrayLength\<close> is the \<^verbatim>\<open>TypeError\<close> of
  \<^verbatim>\<open>parseBracketSegment\<close>; the others are \<^verbatim>\<open>SyntaxError\<close>s. \<open>StackOverflow\<close> is the host's
  \<^verbatim>\<open>RangeError\<close> for a recursion that does not end.
\<close>

datatype error =
    CircularReference
  | EmptyInput
  | NoContent
  | ExpectedListItem
  | TabsInIndentation nat
  | IndentationNotMultiple nat nat
  | UnterminatedString
  | UnexpectedAfterClosingQuote
  | MissingColonAfterKey
  | UnterminatedQuotedKey
  | BackslashAtEnd
  | InvalidEscape code_unit
  | InvalidArrayLength jsstring
  | CountMismatch int string nat
  | StackOverflow

section \<open>String utilities (\<^verbatim>\<open>string-utils.ts\<close>)\<close>

definition escapeString :: "jsstring \<Rightarrow> jsstring" where
  \<comment> \<open>five replacements, in the order of the source\<close>
  "escapeString v =
     replaceAll TAB [BACKSLASH, (of_char CHR ''t'')]
       (replaceAll CARRIAGE_RETURN [BACKSLASH, (of_char CHR ''r'')]
         (replaceAll NEWLINE [BACKSLASH, (of_char CHR ''n'')]
           (replaceAll DOUBLE_QUOTE [BACKSLASH, DOUBLE_QUOTE]
             (replaceAll BACKSLASH [BACKSLASH, BACKSLASH] v))))"

fun unescapeString :: "jsstring \<Rightarrow> error + jsstring" where
  "unescapeString [] = Inr []"
| "unescapeString [c] = (if c = BACKSLASH then Inl BackslashAtEnd else Inr [c])"
| "unescapeString (c # n # rest) =
     (if c = BACKSLASH then
        (if n = (of_char CHR ''n'') then map_sum id ((#) NEWLINE) (unescapeString rest)
         else if n = (of_char CHR ''t'') then map_sum id ((#) TAB) (unescapeString rest)
         else if n = (of_char CHR ''r'') then map_sum id ((#) CARRIAGE_RETURN) (unescapeString rest)
         else if n = BACKSLASH then map_sum id ((#) BACKSLASH) (unescapeString rest)
         else if n = DOUBLE_QUOTE then map_sum id ((#) DOUBLE_QUOTE) (unescapeString rest)
         else Inl (InvalidEscape n))
      else map_sum id ((#) c) (unescapeString (n # rest)))"

fun closing_quote_scan :: "jsstring \<Rightarrow> nat \<Rightarrow> nat option" where
  \<comment> \<open>the loop of \<^verbatim>\<open>findClosingQuote\<close>: the code units from index \<open>i\<close> on\<close>
  "closing_quote_scan [] i = None"
| "closing_quote_scan [c] i = (if c = DOUBLE_QUOTE then Some i else None)"
| "closing_quote_scan (c # d # cs) i =
     (if c = BACKSLASH then closing_quote_scan cs (i + 2)
      else if c = DOUBLE_QUOTE then Some i
      else closing_quote_scan (d # cs) (i + 1))"

definition findClosingQuote :: "jsstring \<Rightarrow> nat \<Rightarrow> nat option" where
  "findClosingQuote content start = closing_quote_scan (drop (start + 1) content) (start + 1)"

fun unquoted_scan :: "code_unit \<Rightarrow> jsstring \<Rightarrow> bool \<Rightarrow> nat \<Rightarrow> nat option" where
  \<comment> \<open>the loop of \<^verbatim>\<open>findUnquotedChar\<close>, with its flag \<^verbatim>\<open>inQuotes\<close>\<close>
  "unquoted_scan ch [] q i = None"
| "unquoted_scan ch [c] q i =
     (if c = DOUBLE_QUOTE then None else if c = ch \<and> \<not> q then Some i else None)"
| "unquoted_scan ch (c # d # cs) q i =
     (if c = BACKSLASH \<and> q then unquoted_scan ch cs q (i + 2)
      else if c = DOUBLE_QUOTE then unquoted_scan ch (d # cs) (\<not> q) (i + 1)
      else if c = ch \<and> \<not> q then Some i
      else unquoted_scan ch (d # cs) q (i + 1))"

definition findUnquotedChar :: "jsstring \<Rightarrow> code_unit \<Rightarrow> nat \<Rightarrow> nat option" where
  "findUnquotedChar content ch start = unquoted_scan ch (drop start content) False start"

section \<open>Validation utilities (\<^verbatim>\<open>validation-utils.ts\<close>)\<close>

definition isBooleanOrNullLiteral :: "jsstring \<Rightarrow> bool" where
  "isBooleanOrNullLiteral token =
     (token = TRUE_LITERAL \<or> token = FALSE_LITERAL \<or> token = NULL_LITERAL)"

definition isNumericLiteral :: "jsstring \<Rightarrow> bool" where
  "isNumericLiteral token =
     (if token = [] then False
      else if length token > 1 \<and> token ! 0 = (of_char CHR ''0'') \<and> token ! 1 \<noteq> (of_char CHR ''.'') then False
      else (let num = Number_of_string token in \<not> isNaN num \<and> isFinite num))"

definition matches_decimal_pattern :: "jsstring \<Rightarrow> bool" where
  \<comment> \<open>the regular expression \<^verbatim>\<open>/^-?\d+(?:\.\d+)?(?:e[+-]?\d+)?$/i\<close>\<close>
  "matches_decimal_pattern s =
     (let u = (if startsWith s (ascii ''-'') then drop 1 s else s);
          ip = takeWhile isDigit u;
          r1 = dropWhile isDigit u;
          r2 = (if startsWith r1 (ascii ''.'') \<and> takeWhile isDigit (drop 1 r1) \<noteq> []
                then dropWhile isDigit (drop 1 r1) else r1)
      in ip \<noteq> [] \<and>
         (case r2 of
            [] \<Rightarrow> True
          | c # r3 \<Rightarrow>
              (c = (of_char CHR ''e'') \<or> c = (of_char CHR ''E'')) \<and>
              (let ds = (if startsWith r3 (ascii ''+'') \<or> startsWith r3 (ascii ''-'') then drop 1 r3 else r3)
               in ds \<noteq> [] \<and> list_all isDigit ds)))"

definition matches_leading_zero_pattern :: "jsstring \<Rightarrow> bool" where
  \<comment> \<open>the regular expression \<^verbatim>\<open>/^0\d+$/\<close>\<close>
  "matches_leading_zero_pattern s =
     (case s of [] \<Rightarrow> False | c # ds \<Rightarrow> c = (of_char CHR ''0'') \<and> ds \<noteq> [] \<and> list_all isDigit ds)"

definition isNumericLike :: "jsstring \<Rightarrow> bool" where
  "isNumericLike v = (matches_decimal_pattern v \<or> matches_leading_zero_pattern v)"

definition isValidUnquotedKey :: "jsstring \<Rightarrow> bool" where
  \<comment> \<open>the regular expression \<^verbatim>\<open>/^[A-Z_][\w.]*$/i\<close>\<close>
  "isValidUnquotedKey k =
     (case k of
        [] \<Rightarrow> False
      | c # cs \<Rightarrow>
          (isLetter c \<or> c = (of_char CHR ''_'')) \<and>
          list_all (\<lambda>x. isLetter x \<or> isDigit x \<or> x = (of_char CHR ''_'') \<or> x = (of_char CHR ''.'')) cs)"

definition isSafeUnquoted :: "jsstring \<Rightarrow> code_unit \<Rightarrow> bool" where
  "isSafeUnquoted v delimiter =
     (if v = [] then False
      else if v \<noteq> trim v then False
      else if isBooleanOrNullLiteral v \<or> isNumericLike v then False
      else if includes_char v COLON then False
      else if includes_char v DOUBLE_QUOTE \<or> includes_char v BACKSLASH then False
      else if \<exists>c \<in> set v. c \<in> set (ascii ''[]{}'') then False
      else if \<exists>c \<in> set v. c \<in> set [NEWLINE, CARRIAGE_RETURN, TAB] then False
      else if includes_char v delimiter then False
      else if startsWith v LIST_ITEM_MARKER then False
      else True)"

definition isJsonPrimitive :: "jsvalue \<Rightarrow> bool" where
  "isJsonPrimitive v =
     (case v of Null \<Rightarrow> True | Str s \<Rightarrow> True | Num n \<Rightarrow> True | Bool b \<Rightarrow> True | _ \<Rightarrow> False)"

definition isJsonArray :: "jsvalue \<Rightarrow> bool" where
  "isJsonArray v = (case v of Arr xs \<Rightarrow> True | _ \<Rightarrow> False)"

definition isJsonObject :: "jsvalue \<Rightarrow> bool" where
  \<comment> \<open>\<^verbatim>\<open>typeof value === 'object'\<close>, not \<^verbatim>\<open>null\<close>, not an array\<close>
  "isJsonObject v =
     (case v of Obj p kvs \<Rightarrow> True | Date s \<Rightarrow> True | SetV xs \<Rightarrow> True | MapV es \<Rightarrow> True
      | _ \<Rightarrow> False)"

definition isArrayOfPrimitives :: "jsvalue list \<Rightarrow> bool" where
  "isArrayOfPrimitives xs = list_all isJsonPrimitive xs"

definition isArrayOfArrays :: "jsvalue list \<Rightarrow> bool" where
  "isArrayOfArrays xs = list_all isJsonArray xs"

definition isArrayOfObjects :: "jsvalue list \<Rightarrow> bool" where
  "isArrayOfObjects xs = list_all isJsonObject xs"

section \<open>Primitives of the encoder (\<^verbatim>\<open>encode.ts\<close>)\<close>

definition encodeStringLiteral :: "jsstring \<Rightarrow> code_unit \<Rightarrow> jsstring" where
  "encodeStringLiteral v delimiter =
     (if isSafeUnquoted v delimiter then v
      else [DOUBLE_QUOTE] @ escapeString v @ [DOUBLE_QUOTE])"

definition encodeKey :: "jsstring \<Rightarrow> jsstring" where
  "encodeKey k =
     (if isValidUnquotedKey k then k
      else [DOUBLE_QUOTE] @ escapeString k @ [DOUBLE_QUOTE])"

definition encodePrimitive :: "(number \<Rightarrow> jsstring) \<Rightarrow> jsvalue \<Rightarrow> code_unit \<Rightarrow> jsstring" where
  \<comment> \<open>\<open>numberToString\<close> is the host's \<^verbatim>\<open>String(value)\<close> on numbers. The function is
      only called on primitives; the last case is never reached.\<close>
  "encodePrimitive numberToString v delimiter =
     (case v of
        Null \<Rightarrow> NULL_LITERAL
      | Bool b \<Rightarrow> (if b then TRUE_LITERAL else FALSE_LITERAL)
      | Num n \<Rightarrow> numberToString n
      | Str s \<Rightarrow> encodeStringLiteral s delimiter
      | _ \<Rightarrow> [])"

definition encodeAndJoinPrimitives :: "(number \<Rightarrow> jsstring) \<Rightarrow> jsvalue list \<Rightarrow> code_unit \<Rightarrow> jsstring" where
  "encodeAndJoinPrimitives numberToString vals delimiter =
     join [delimiter] (map (\<lambda>v. encodePrimitive numberToString v delimiter) vals)"

record ResolvedEncodeOptions =
  enc_indent :: nat
  enc_delimiter :: code_unit
  lengthMarker :: bool

definition resolveOptions :: "code_unit option \<Rightarrow> ResolvedEncodeOptions" where
  "resolveOptions delimiterOption =
     \<lparr>enc_indent = DEFAULT_INDENT_SIZE,
      enc_delimiter = (case delimiterOption of Some d \<Rightarrow> d | None \<Rightarrow> DEFAULT_DELIMITER),
      lengthMarker = False\<rparr>"

definition formatHeader :: "nat \<Rightarrow> jsstring option \<Rightarrow> jsstring list option \<Rightarrow> code_unit \<Rightarrow> bool \<Rightarrow> jsstring" where
  \<comment> \<open>\<^verbatim>\<open>formatHeader(length, {key, fields, delimiter, lengthMarker})\<close>; an empty key is
      falsy and is left out\<close>
  "formatHeader len keyOpt fieldsOpt delimiter marker =
     (case keyOpt of Some k \<Rightarrow> if k \<noteq> [] then encodeKey k else [] | None \<Rightarrow> [])
     @ [OPEN_BRACKET] @ (if marker then (ascii ''#'') else []) @ nat_to_string len
     @ (if delimiter \<noteq> DEFAULT_DELIMITER then [delimiter] else []) @ [CLOSE_BRACKET]
     @ (case fieldsOpt of
          Some fs \<Rightarrow> [OPEN_BRACE] @ join [delimiter] (map encodeKey fs) @ [CLOSE_BRACE]
        | None \<Rightarrow> [])
     @ [COLON]"

subsection \<open>The line writer\<close>

definition push :: "nat \<Rightarrow> jsstring list \<Rightarrow> nat \<Rightarrow> jsstring \<Rightarrow> jsstring list" where
  \<comment> \<open>\<^verbatim>\<open>writer.push(depth, content)\<close> on the writer's lines, for its indent size\<close>
  "push indentSize writer depth content =
     writer @ [concat (replicate depth (replicate indentSize SPACE)) @ content]"

definition pushListItem :: "nat \<Rightarrow> jsstring list \<Rightarrow> nat \<Rightarrow> jsstring \<Rightarrow> jsstring list" where
  "pushListItem indentSize writer depth content =
     push indentSize writer depth (LIST_ITEM_PREFIX @ content)"

definition writer_toString :: "jsstring list \<Rightarrow> jsstring" where
  "writer_toString writer = join [NEWLINE] writer"

subsection \<open>Arrays and objects\<close>

fun get_property :: "jsvalue \<Rightarrow> jsstring \<Rightarrow> jsvalue option" where
  \<comment> \<open>\<^verbatim>\<open>key in row\<close> and \<^verbatim>\<open>row[key]\<close>: the data property found on the object or along its
      prototype chain. Members of the built-in prototypes are functions or the accessor
      \<^verbatim>\<open>__proto__\<close>, whose value is an object; none passes \<^verbatim>\<open>isJsonPrimitive\<close>, and they
      are given as \<open>None\<close> like a missing property.\<close>
  "get_property (Obj p kvs) k =
     (case map_of kvs k of
        Some v \<Rightarrow> Some v
      | None \<Rightarrow> (case p of CustomPrototype q \<Rightarrow> get_property q k | _ \<Rightarrow> None))"
| "get_property (Arr xs) k =
     (if k = (ascii ''length'') then Some (Num (Finite (of_nat (length xs))))
      else (case array_index k of
              Some i \<Rightarrow> if i < length xs then Some (xs ! i) else None
            | None \<Rightarrow> None))"
| "get_property v k = None"

definition encodeInlineArrayLine ::
  "(number \<Rightarrow> jsstring) \<Rightarrow> jsvalue list \<Rightarrow> code_unit \<Rightarrow> jsstring option \<Rightarrow> bool \<Rightarrow> jsstring" where
  "encodeInlineArrayLine numberToString vals delimiter prefix marker =
     (let header = formatHeader (length vals) prefix None delimiter marker;
          joinedValue = encodeAndJoinPrimitives numberToString vals delimiter
      in if length vals = 0 then header else header @ (ascii '' '') @ joinedValue)"

definition isTabularArray :: "jsvalue list \<Rightarrow> jsstring list \<Rightarrow> bool" where
  "isTabularArray rows header =
     list_all
       (\<lambda>row. length (Object_keys row) = length header \<and>
              list_all
                (\<lambda>k. (case get_property row k of None \<Rightarrow> False | Some v \<Rightarrow> isJsonPrimitive v))
                header)
       rows"

definition extractTabularHeader :: "jsvalue list \<Rightarrow> jsstring list option" where
  "extractTabularHeader rows =
     (case rows of
        [] \<Rightarrow> None
      | firstRow # others \<Rightarrow>
          (let firstKeys = Object_keys firstRow
           in if length firstKeys = 0 then None
              else if isTabularArray rows firstKeys then Some firstKeys
              else None))"

definition writeTabularRows ::
  "(number \<Rightarrow> jsstring) \<Rightarrow> jsvalue list \<Rightarrow> jsstring list \<Rightarrow> jsstring list \<Rightarrow> nat
     \<Rightarrow> ResolvedEncodeOptions \<Rightarrow> jsstring list" where
  "writeTabularRows numberToString rows header writer depth options =
     fold (\<lambda>row w.
             push (enc_indent options) w depth
               (encodeAndJoinPrimitives numberToString
                  (map (\<lambda>k. (case get_property row k of Some v \<Rightarrow> v | None \<Rightarrow> Other)) header)
                  (enc_delimiter options)))
       rows writer"

definition encodeArrayOfObjectsAsTabular ::
  "(number \<Rightarrow> jsstring) \<Rightarrow> jsstring option \<Rightarrow> jsvalue list \<Rightarrow> jsstring list \<Rightarrow> jsstring list \<Rightarrow> nat
     \<Rightarrow> ResolvedEncodeOptions \<Rightarrow> jsstring list" where
  "encodeArrayOfObjectsAsTabular numberToString prefix rows header writer depth options =
     writeTabularRows numberToString rows header
       (push (enc_indent options) writer depth
          (formatHeader (length rows) prefix (Some header) (enc_delimiter options)
             (lengthMarker options)))
       (depth + 1) options"

definition encodeArrayOfArraysAsListItems ::
  "(number \<Rightarrow> jsstring) \<Rightarrow> jsstring option \<Rightarrow> jsvalue list \<Rightarrow> jsstring list \<Rightarrow> nat
     \<Rightarrow> ResolvedEncodeOptions \<Rightarrow> jsstring list" where
  "encodeArrayOfArraysAsListItems numberToString prefix vals writer depth options =
     fold (\<lambda>arr w.
             (case arr of
                Arr xs \<Rightarrow>
                  if isArrayOfPrimitives xs then
                    pushListItem (enc_indent options) w (depth + 1)
                      (encodeInlineArrayLine numberToString xs (enc_delimiter options) None
                         (lengthMarker options))
                  else w
              | _ \<Rightarrow> w))
       vals
       (push (enc_indent options) writer depth
          (formatHeader (length vals) prefix None (enc_delimiter options) (lengthMarker options)))"

definition elements :: "jsvalue \<Rightarrow> jsvalue list" where
  \<comment> \<open>the elements of an array\<close>
  "elements v = (case v of Arr xs \<Rightarrow> xs | _ \<Rightarrow> [])"

definition entries :: "jsvalue \<Rightarrow> (jsstring \<times> jsvalue) list" where
  \<comment> \<open>\<^verbatim>\<open>Object.keys(value)\<close>, each key with \<^verbatim>\<open>value[key]\<close>\<close>
  "entries v = (case v of Obj p kvs \<Rightarrow> kvs | _ \<Rightarrow> [])"

lemma size_elements: "x \<in> set (elements v) \<Longrightarrow> size x < size v"
  by (cases v) (auto simp: elements_def less_Suc_eq_le size_list_estimation')

lemma size_entries: "(k, x) \<in> set (entries v) \<Longrightarrow> size x < size v"
proof (cases v)
  case (Obj p kvs)
  assume "(k, x) \<in> set (entries v)"
  with Obj have "(k, x) \<in> set kvs" by (simp add: entries_def)
  then have "size_prod (\<lambda>_. 0) size (k, x) \<le> size_list (size_prod (\<lambda>_. 0) size) kvs"
    by (rule size_list_estimation') simp
  with Obj show ?thesis by simp
qed (simp_all add: entries_def)

function encodeObject ::
    "(number \<Rightarrow> jsstring) \<Rightarrow> jsvalue \<Rightarrow> jsstring list \<Rightarrow> nat \<Rightarrow> ResolvedEncodeOptions \<Rightarrow> jsstring list"
  and encodeKeyValuePair ::
    "(number \<Rightarrow> jsstring) \<Rightarrow> jsstring \<Rightarrow> jsvalue \<Rightarrow> jsstring list \<Rightarrow> nat \<Rightarrow> ResolvedEncodeOptions
       \<Rightarrow> jsstring list"
  and encodeArray ::
    "(number \<Rightarrow> jsstring) \<Rightarrow> jsstring option \<Rightarrow> jsvalue \<Rightarrow> jsstring list \<Rightarrow> nat
       \<Rightarrow> ResolvedEncodeOptions \<Rightarrow> jsstring list"
  and encodeMixedArrayAsListItems ::
    "(number \<Rightarrow> jsstring) \<Rightarrow> jsstring option \<Rightarrow> jsvalue \<Rightarrow> jsstring list \<Rightarrow> nat
       \<Rightarrow> ResolvedEncodeOptions \<Rightarrow> jsstring list"
  and encodeObjectAsListItem ::
    "(number \<Rightarrow> jsstring) \<Rightarrow> jsvalue \<Rightarrow> jsstring list \<Rightarrow> nat \<Rightarrow> ResolvedEncodeOptions \<Rightarrow> jsstring list"
  and encodeListItemValue ::
    "(number \<Rightarrow> jsstring) \<Rightarrow> jsvalue \<Rightarrow> jsstring list \<Rightarrow> nat \<Rightarrow> ResolvedEncodeOptions \<Rightarrow> jsstring list"
where
  "encodeObject numberToString v writer depth options =
     fold (\<lambda>(k, x) w. encodeKeyValuePair numberToString k x w depth options) (entries v) writer"
| "encodeKeyValuePair numberToString k v writer depth options =
     (if isJsonPrimitive v then
        push (enc_indent options) writer depth
          (encodeKey k @ (ascii '': '') @ encodePrimitive numberToString v (enc_delimiter options))
      else if isJsonArray v then encodeArray numberToString (Some k) v writer depth options
      else if isJsonObject v then
        (if length (Object_keys v) = 0 then
           push (enc_indent options) writer depth (encodeKey k @ (ascii '':''))
         else
           encodeObject numberToString v
             (push (enc_indent options) writer depth (encodeKey k @ (ascii '':'')))
             (depth + 1) options)
      else writer)"
| "encodeArray numberToString keyOpt v writer depth options =
     (if length (elements v) = 0 then
        push (enc_indent options) writer depth
          (formatHeader 0 keyOpt None (enc_delimiter options) (lengthMarker options))
      else if isArrayOfPrimitives (elements v) then
        push (enc_indent options) writer depth
          (encodeInlineArrayLine numberToString (elements v) (enc_delimiter options) keyOpt
             (lengthMarker options))
      else if isArrayOfArrays (elements v)
              \<and> list_all (\<lambda>arr. isArrayOfPrimitives (elements arr)) (elements v) then
        encodeArrayOfArraysAsListItems numberToString keyOpt (elements v) writer depth options
      else if isArrayOfObjects (elements v) then
        (case extractTabularHeader (elements v) of
           Some header \<Rightarrow>
             encodeArrayOfObjectsAsTabular numberToString keyOpt (elements v) header writer depth
               options
         | None \<Rightarrow> encodeMixedArrayAsListItems numberToString keyOpt v writer depth options)
      else encodeMixedArrayAsListItems numberToString keyOpt v writer depth options)"
| "encodeMixedArrayAsListItems numberToString prefix v writer depth options =
     fold (\<lambda>item w. encodeListItemValue numberToString item w (depth + 1) options) (elements v)
       (push (enc_indent options) writer depth
          (formatHeader (length (elements v)) prefix None (enc_delimiter options)
             (lengthMarker options)))"
| "encodeObjectAsListItem numberToString obj writer depth options =
     (if length (Object_keys obj) = 0 then push (enc_indent options) writer depth LIST_ITEM_MARKER
      else
        (let firstKey = fst (hd (entries obj));
             firstValue = snd (hd (entries obj));
             encodedKey = encodeKey firstKey
         in fold (\<lambda>(k, x) w. encodeKeyValuePair numberToString k x w (depth + 1) options)
              (tl (entries obj))
              (if isJsonPrimitive firstValue then
                 pushListItem (enc_indent options) writer depth
                   (encodedKey @ (ascii '': '')
                      @ encodePrimitive numberToString firstValue (enc_delimiter options))
               else if isJsonArray firstValue then
                 (if isArrayOfPrimitives (elements firstValue) then
                    pushListItem (enc_indent options) writer depth
                      (encodeInlineArrayLine numberToString (elements firstValue)
                         (enc_delimiter options) (Some firstKey) (lengthMarker options))
                  else if isArrayOfObjects (elements firstValue) then
                    (case extractTabularHeader (elements firstValue) of
                       Some header \<Rightarrow>
                         writeTabularRows numberToString (elements firstValue) header
                           (pushListItem (enc_indent options) writer depth
                              (formatHeader (length (elements firstValue)) (Some firstKey)
                                 (Some header) (enc_delimiter options) (lengthMarker options)))
                           (depth + 1) options
                     | None \<Rightarrow>
                         fold (\<lambda>item w. encodeObjectAsListItem numberToString item w (depth + 1)
                                           options)
                           (elements firstValue)
                           (pushListItem (enc_indent options) writer depth
                              (encodedKey @ (ascii ''['')
                                 @ nat_to_string (length (elements firstValue)) @ (ascii '']:''))))
                  else
                    fold (\<lambda>item w. encodeListItemValue numberToString item w (depth + 1) options)
                      (elements firstValue)
                      (pushListItem (enc_indent options) writer depth
                         (encodedKey @ (ascii ''['')
                            @ nat_to_string (length (elements firstValue)) @ (ascii '']:''))))
               else if isJsonObject firstValue then
                 (if length (Object_keys firstValue) = 0 then
                    pushListItem (enc_indent options) writer depth (encodedKey @ (ascii '':''))
                  else
                    encodeObject numberToString firstValue
                      (pushListItem (enc_indent options) writer depth (encodedKey @ (ascii '':'')))
                      (depth + 2) options)
               else writer)))"
| "encodeListItemValue numberToString v writer depth options =
     (if isJsonPrimitive v then
        pushListItem (enc_indent options) writer depth
          (encodePrimitive numberToString v (enc_delimiter options))
      else if isJsonArray v \<and> isArrayOfPrimitives (elements v) then
        pushListItem (enc_indent options) writer depth
          (encodeInlineArrayLine numberToString (elements v) (enc_delimiter options) None
             (lengthMarker options))
      else if isJsonObject v then encodeObjectAsListItem numberToString v writer depth options
      else writer)"
  by pat_completeness auto

lemma size_first_value:
  "length (Object_keys obj) \<noteq> 0 \<Longrightarrow> size (snd (hd (entries obj))) < size obj"
proof -
  assume "length (Object_keys obj) \<noteq> 0"
  then have "entries obj \<noteq> []"
    by (cases obj) (auto simp: Object_keys_def entries_def)
  then have "(fst (hd (entries obj)), snd (hd (entries obj))) \<in> set (entries obj)"
    by simp
  then show ?thesis by (rule size_entries)
qed

lemma size_first_value_element:
  "length (Object_keys obj) \<noteq> 0 \<Longrightarrow> x \<in> set (elements (snd (hd (entries obj))))
   \<Longrightarrow> size x < size obj"
  using size_first_value [of obj] size_elements [of x "snd (hd (entries obj))"] by simp

lemma size_rest_value:
  "(k, x) \<in> set (tl (entries obj)) \<Longrightarrow> size x < size obj"
  by (metis size_entries list.set_sel(2) tl_Nil)

termination encodeObject
proof (relation "measure
    (case_sum
       (case_sum (\<lambda>(numberToString, v, writer, depth, options). 10 * size v + 1)
          (case_sum (\<lambda>(numberToString, k, v, writer, depth, options). 10 * size v + 2)
             (\<lambda>(numberToString, keyOpt, v, writer, depth, options). 10 * size v + 1)))
       (case_sum (\<lambda>(numberToString, prefix, v, writer, depth, options). 10 * size v)
          (case_sum (\<lambda>(numberToString, v, writer, depth, options). 10 * size v + 3)
             (\<lambda>(numberToString, v, writer, depth, options). 10 * size v + 4))))",
    goal_cases)
  case 1 show ?case by simp
next
  case (2 numberToString v writer depth options x xa y xb)
  then show ?case using size_entries [of xa y v] by simp
next
  case 3 then show ?case by simp
next
  case 4 then show ?case by simp
next
  case 5 then show ?case by simp
next
  case 6 then show ?case by simp
next
  case (7 numberToString prefix v writer depth options x xa)
  then show ?case using size_elements [of x v] by simp
next
  case (8 numberToString obj writer depth options x xa xb xc xd)
  then show ?case using size_first_value_element [of obj xc] by simp
next
  case (9 numberToString obj writer depth options x xa xb xc xd)
  then show ?case using size_first_value_element [of obj xc] by simp
next
  case (10 numberToString obj writer depth options x xa xb)
  then show ?case using size_first_value [of obj] by simp
next
  case (11 numberToString obj writer depth options x xa xb xc xd y xe)
  then show ?case using size_rest_value [of xd y obj] by simp
next
  case 12 then show ?case by simp
qed

declare encodeObject.simps [simp del]

definition encodeValue :: "(number \<Rightarrow> jsstring) \<Rightarrow> jsvalue \<Rightarrow> ResolvedEncodeOptions \<Rightarrow> jsstring" where
  "encodeValue numberToString v options =
     (if isJsonPrimitive v then encodePrimitive numberToString v (enc_delimiter options)
      else
        writer_toString
          (if isJsonArray v then encodeArray numberToString None v [] 0 options
           else if isJsonObject v then encodeObject numberToString v [] 0 options
           else []))"

definition serialize :: "(number \<Rightarrow> jsstring) \<Rightarrow> jsvalue \<Rightarrow> code_unit option \<Rightarrow> jsstring" where
  \<comment> \<open>\<^verbatim>\<open>serialize(obj, {delimiter})\<close> on a tree: \<^verbatim>\<open>hasCircularReference\<close> is false on a value
      that holds no container twice (the store model below has the general case)\<close>
  "serialize numberToString obj delimiterOption =
     encodeValue numberToString (normalizeValue obj) (resolveOptions delimiterOption)"

section \<open>Tokens of the decoder (\<^verbatim>\<open>decode.ts\<close>)\<close>

definition parseStringLiteral :: "jsstring \<Rightarrow> error + jsstring" where
  "parseStringLiteral token =
     (let trimmed = trim token
      in if startsWith trimmed [DOUBLE_QUOTE] then
           (case findClosingQuote trimmed 0 of
              None \<Rightarrow> Inl UnterminatedString
            | Some closingQuoteIndex \<Rightarrow>
                if closingQuoteIndex \<noteq> length trimmed - 1 then Inl UnexpectedAfterClosingQuote
                else unescapeString (slice trimmed 1 closingQuoteIndex))
         else Inr trimmed)"

definition parsePrimitiveToken :: "jsstring \<Rightarrow> error + jsvalue" where
  "parsePrimitiveToken token =
     (let trimmed = trim token
      in if trimmed = [] then Inr (Str [])
         else if startsWith trimmed [DOUBLE_QUOTE] then map_sum id Str (parseStringLiteral trimmed)
         else if trimmed = TRUE_LITERAL then Inr (Bool True)
         else if trimmed = FALSE_LITERAL then Inr (Bool False)
         else if trimmed = NULL_LITERAL then Inr Null
         else if isNumericLiteral trimmed then Inr (Num (parseFloat trimmed))
         else Inr (Str trimmed))"

fun parseDelimitedValues_loop ::
  "code_unit \<Rightarrow> jsstring \<Rightarrow> jsstring \<Rightarrow> bool \<Rightarrow> jsstring list \<Rightarrow> jsstring list" where
  \<comment> \<open>the loop of \<^verbatim>\<open>parseDelimitedValues\<close> over the rest of the input, with \<^verbatim>\<open>current\<close>,
      \<^verbatim>\<open>inQuotes\<close> and \<^verbatim>\<open>values\<close>, and the final push\<close>
  "parseDelimitedValues_loop d [] cur q vals =
     (if cur \<noteq> [] \<or> vals \<noteq> [] then vals @ [trim cur] else vals)"
| "parseDelimitedValues_loop d [c] cur q vals =
     (if c = DOUBLE_QUOTE then parseDelimitedValues_loop d [] (cur @ [c]) (\<not> q) vals
      else if c = d \<and> \<not> q then parseDelimitedValues_loop d [] [] q (vals @ [trim cur])
      else parseDelimitedValues_loop d [] (cur @ [c]) q vals)"
| "parseDelimitedValues_loop d (c # e # cs) cur q vals =
     (if c = BACKSLASH \<and> q then parseDelimitedValues_loop d cs (cur @ [c, e]) q vals
      else if c = DOUBLE_QUOTE then parseDelimitedValues_loop d (e # cs) (cur @ [c]) (\<not> q) vals
      else if c = d \<and> \<not> q then parseDelimitedValues_loop d (e # cs) [] q (vals @ [trim cur])
      else parseDelimitedValues_loop d (e # cs) (cur @ [c]) q vals)"

definition parseDelimitedValues :: "jsstring \<Rightarrow> code_unit \<Rightarrow> jsstring list" where
  "parseDelimitedValues input delimiter = parseDelimitedValues_loop delimiter input [] False []"

fun mapRowValuesToPrimitives :: "jsstring list \<Rightarrow> error + jsvalue list" where
  \<comment> \<open>\<^verbatim>\<open>values.map(parsePrimitiveToken)\<close>: the first token that throws ends the map\<close>
  "mapRowValuesToPrimitives [] = Inr []"
| "mapRowValuesToPrimitives (v # vs) =
     (case parsePrimitiveToken v of
        Inl e \<Rightarrow> Inl e
      | Inr x \<Rightarrow> map_sum id ((#) x) (mapRowValuesToPrimitives vs))"

fun parseFieldNames :: "jsstring list \<Rightarrow> error + jsstring list" where
  \<comment> \<open>\<^verbatim>\<open>.map((field) => parseStringLiteral(field.trim()))\<close>\<close>
  "parseFieldNames [] = Inr []"
| "parseFieldNames (f # fs) =
     (case parseStringLiteral (trim f) of
        Inl e \<Rightarrow> Inl e
      | Inr x \<Rightarrow> map_sum id ((#) x) (parseFieldNames fs))"

definition parseUnquotedKey :: "jsstring \<Rightarrow> nat \<Rightarrow> error + (jsstring \<times> nat)" where
  "parseUnquotedKey content start =
     (case indexOf content COLON start of
        None \<Rightarrow> Inl MissingColonAfterKey
      | Some e \<Rightarrow> Inr (trim (slice content start e), e + 1))"

definition parseQuotedKey :: "jsstring \<Rightarrow> nat \<Rightarrow> error + (jsstring \<times> nat)" where
  "parseQuotedKey content start =
     (case findClosingQuote content start of
        None \<Rightarrow> Inl UnterminatedQuotedKey
      | Some closingQuoteIndex \<Rightarrow>
          (case unescapeString (slice content (start + 1) closingQuoteIndex) of
             Inl e \<Rightarrow> Inl e
           | Inr k \<Rightarrow>
               (let e = closingQuoteIndex + 1
                in if e \<ge> length content \<or> content ! e \<noteq> COLON then Inl MissingColonAfterKey
                   else Inr (k, e + 1))))"

definition parseKeyToken :: "jsstring \<Rightarrow> nat \<Rightarrow> error + (jsstring \<times> nat)" where
  "parseKeyToken content start =
     (if start < length content \<and> content ! start = DOUBLE_QUOTE
      then parseQuotedKey content start
      else parseUnquotedKey content start)"

definition isArrayHeaderAfterHyphen :: "jsstring \<Rightarrow> bool" where
  "isArrayHeaderAfterHyphen content =
     (startsWith (trim content) [OPEN_BRACKET] \<and> findUnquotedChar content COLON 0 \<noteq> None)"

definition isObjectFirstFieldAfterHyphen :: "jsstring \<Rightarrow> bool" where
  "isObjectFirstFieldAfterHyphen content = (findUnquotedChar content COLON 0 \<noteq> None)"

record ResolvedOptions =
  opt_indent :: nat
  strict :: bool

definition assertExpectedCount :: "nat \<Rightarrow> int \<Rightarrow> string \<Rightarrow> ResolvedOptions \<Rightarrow> error + unit" where
  "assertExpectedCount actual expected itemType options =
     (if strict options \<and> int actual \<noteq> expected then Inl (CountMismatch expected itemType actual)
      else Inr ())"

definition isDataRow :: "jsstring \<Rightarrow> code_unit \<Rightarrow> bool" where
  "isDataRow content delimiter =
     (let colonPos = indexOf content COLON 0;
          delimiterPos = indexOf content delimiter 0
      in (case colonPos of
            None \<Rightarrow> True
          | Some cp \<Rightarrow> (case delimiterPos of None \<Rightarrow> False | Some dp \<Rightarrow> dp < cp)))"

subsection \<open>The line model\<close>

record ParsedLine =
  raw :: jsstring
  indent :: nat
  content :: jsstring
  depth :: nat
  lineNumber :: nat

record BlankLine =
  blank_lineNumber :: nat
  blank_indent :: nat
  blank_depth :: nat

definition computeDepthFromIndent :: "nat \<Rightarrow> nat \<Rightarrow> nat" where
  "computeDepthFromIndent indentSpaces indentSize = indentSpaces div indentSize"

fun toParsedLines_loop ::
  "nat \<Rightarrow> bool \<Rightarrow> jsstring list \<Rightarrow> nat \<Rightarrow> error + (ParsedLine list \<times> BlankLine list)" where
  \<comment> \<open>the \<^verbatim>\<open>for\<close> loop of \<^verbatim>\<open>toParsedLines\<close> over the lines from index \<open>i\<close> on\<close>
  "toParsedLines_loop indentSize strct [] i = Inr ([], [])"
| "toParsedLines_loop indentSize strct (rw # rest) i =
     (let ln = i + 1;
          ind = length (takeWhile (\<lambda>c. c = SPACE) rw);
          cont = drop ind rw
      in if trim cont = [] then
           map_sum id
             (\<lambda>(ps, bs). (ps, \<lparr>blank_lineNumber = ln, blank_indent = ind,
                                blank_depth = computeDepthFromIndent ind indentSize\<rparr> # bs))
             (toParsedLines_loop indentSize strct rest (i + 1))
         else
           (let dp = computeDepthFromIndent ind indentSize;
                wsEnd = length (takeWhile (\<lambda>c. c = SPACE \<or> c = TAB) rw)
            in if strct \<and> includes_char (slice rw 0 wsEnd) TAB then Inl (TabsInIndentation ln)
               else if strct \<and> ind > 0 \<and> ind mod indentSize \<noteq> 0
                 then Inl (IndentationNotMultiple ln ind)
               else
                 map_sum id
                   (\<lambda>(ps, bs). (\<lparr>raw = rw, indent = ind, content = cont, depth = dp,
                                   lineNumber = ln\<rparr> # ps, bs))
                   (toParsedLines_loop indentSize strct rest (i + 1))))"

definition toParsedLines :: "jsstring \<Rightarrow> nat \<Rightarrow> bool \<Rightarrow> error + (ParsedLine list \<times> BlankLine list)" where
  "toParsedLines source indentSize strct =
     (if trim source = [] then Inr ([], [])
      else toParsedLines_loop indentSize strct (split_on NEWLINE source) 0)"

record LineCursor =
  lines :: "ParsedLine list"
  index :: nat
  blankLines :: "BlankLine list"

definition peek :: "LineCursor \<Rightarrow> ParsedLine option" where
  "peek c = (if index c < length (lines c) then Some (lines c ! index c) else None)"

definition advance :: "LineCursor \<Rightarrow> LineCursor" where
  "advance c = c\<lparr>index := index c + 1\<rparr>"

definition atEnd :: "LineCursor \<Rightarrow> bool" where
  "atEnd c = (index c \<ge> length (lines c))"

definition cursor_length :: "LineCursor \<Rightarrow> nat" where
  "cursor_length c = length (lines c)"

subsection \<open>Array headers\<close>

record ArrayHeader =
  key :: "jsstring option"
  length_h :: int
  delimiter :: code_unit
  fields_h :: "jsstring list option"
  hasLengthMarker :: bool

definition parseBracketSegment :: "jsstring \<Rightarrow> code_unit \<Rightarrow> error + (int \<times> code_unit \<times> bool)" where
  "parseBracketSegment seg defaultDelimiter =
     (let hasMarker = startsWith seg [HASH];
          c1 = (if hasMarker then drop 1 seg else seg);
          delim = (if endsWith c1 TAB then TAB else if endsWith c1 PIPE then PIPE
                   else defaultDelimiter);
          c2 = (if endsWith c1 TAB \<or> endsWith c1 PIPE then butlast c1 else c1)
      in (case parseInt c2 of
            None \<Rightarrow> Inl (InvalidArrayLength seg)
          | Some len \<Rightarrow> Inr (len, delim, hasMarker)))"

definition header_braceEnd :: "jsstring \<Rightarrow> nat \<Rightarrow> nat" where
  \<comment> \<open>the variable \<^verbatim>\<open>braceEnd\<close> of \<^verbatim>\<open>parseArrayHeaderLine\<close> after its first \<^verbatim>\<open>if\<close>\<close>
  "header_braceEnd cont bracketEnd =
     (case indexOf cont OPEN_BRACE bracketEnd of
        None \<Rightarrow> bracketEnd + 1
      | Some braceStart \<Rightarrow>
          (case indexOf cont COLON bracketEnd of
             None \<Rightarrow> bracketEnd + 1
           | Some ci \<Rightarrow>
               if braceStart < ci then
                 (case indexOf cont CLOSE_BRACE braceStart of
                    None \<Rightarrow> bracketEnd + 1
                  | Some foundBraceEnd \<Rightarrow> foundBraceEnd + 1)
               else bracketEnd + 1))"

definition header_fields ::
  "jsstring \<Rightarrow> nat \<Rightarrow> nat \<Rightarrow> code_unit \<Rightarrow> error + jsstring list option" where
  \<comment> \<open>the variable \<^verbatim>\<open>fields\<close> of \<^verbatim>\<open>parseArrayHeaderLine\<close>\<close>
  "header_fields cont bracketEnd colonIndex delim =
     (case indexOf cont OPEN_BRACE bracketEnd of
        None \<Rightarrow> Inr None
      | Some braceStart \<Rightarrow>
          if braceStart < colonIndex then
            (case indexOf cont CLOSE_BRACE braceStart of
               None \<Rightarrow> Inr None
             | Some foundBraceEnd \<Rightarrow>
                 if foundBraceEnd < colonIndex then
                   map_sum id Some
                     (parseFieldNames
                        (parseDelimitedValues (slice cont (braceStart + 1) foundBraceEnd) delim))
                 else Inr None)
          else Inr None)"

definition parseArrayHeaderLine ::
  "jsstring \<Rightarrow> code_unit \<Rightarrow> error + (ArrayHeader \<times> jsstring option) option" where
  "parseArrayHeaderLine cont defaultDelimiter =
     (if startsWith (trimStart cont) [DOUBLE_QUOTE] then Inr None
      else
        (case indexOf cont OPEN_BRACKET 0 of
           None \<Rightarrow> Inr None
         | Some bracketStart \<Rightarrow>
        (case indexOf cont CLOSE_BRACKET bracketStart of
           None \<Rightarrow> Inr None
         | Some bracketEnd \<Rightarrow>
        (case indexOf cont COLON (max bracketEnd (header_braceEnd cont bracketEnd)) of
           None \<Rightarrow> Inr None
         | Some colonIndex \<Rightarrow>
        (case parseBracketSegment
                (slice cont (bracketStart + 1) (header_braceEnd cont bracketEnd))
                defaultDelimiter of
           Inl e \<Rightarrow> Inr None
         | Inr (len, delim, marker) \<Rightarrow>
        (case header_fields cont bracketEnd colonIndex delim of
           Inl e \<Rightarrow> Inl e
         | Inr fs \<Rightarrow>
             Inr (Some (\<lparr>key = (if bracketStart > 0 then Some (trim (slice cont 0 bracketStart))
                                 else None),
                         length_h = len, delimiter = delim, fields_h = fs,
                         hasLengthMarker = marker\<rparr>,
                        if trim (drop (colonIndex + 1) cont) = [] then None
                        else Some (trim (drop (colonIndex + 1) cont))))))))))"

subsection \<open>The recursive decoder\<close>

text \<open>
  The decoding functions call each other while the cursor moves forward through the
  lines. They are defined by recursion on a bound \<open>n\<close> on the depth of calls, each call
  and each loop iteration taking one unit; \<open>OutOfFuel\<close> is the result when the bound is
  too small. \<^verbatim>\<open>deserialize\<close> below starts with a bound that is never used up (lemma
  \<open>deserialize_fuel_suffices\<close>).
\<close>

datatype 'a outcome = Returns 'a | Throws error | OutOfFuel

definition of_result :: "error + 'a \<Rightarrow> 'a outcome" where
  "of_result r = (case r of Inl e \<Rightarrow> Throws e | Inr x \<Rightarrow> Returns x)"

definition tabular_row_object :: "jsstring list \<Rightarrow> jsvalue list \<Rightarrow> jsvalue" where
  \<comment> \<open>\<^verbatim>\<open>obj[header.fields[i]] = primitives[i]\<close> for every field index; a missing
      primitive is \<^verbatim>\<open>undefined\<close>\<close>
  "tabular_row_object fs primitives =
     fold (\<lambda>i obj. set_property obj (fs ! i) (if i < length primitives then primitives ! i else Other))
       [0..<length fs] (Obj ObjectPrototype [])"

definition isKeyValueLine :: "ParsedLine \<Rightarrow> bool" where
  "isKeyValueLine line =
     (let cont = content line
      in if startsWith cont [DOUBLE_QUOTE] then
           (case findClosingQuote cont 0 of
              None \<Rightarrow> False
            | Some closingQuoteIndex \<Rightarrow>
                closingQuoteIndex + 1 < length cont \<and> cont ! (closingQuoteIndex + 1) = COLON)
         else includes_char cont COLON)"

definition decodeInlinePrimitiveArray ::
  "ArrayHeader \<Rightarrow> jsstring \<Rightarrow> ResolvedOptions \<Rightarrow> error + jsvalue" where
  "decodeInlinePrimitiveArray header inlineValues options =
     (if trim inlineValues = [] then
        (case assertExpectedCount 0 (length_h header) ''inline array items'' options of
           Inl e \<Rightarrow> Inl e
         | Inr u \<Rightarrow> Inr (Arr []))
      else
        (case mapRowValuesToPrimitives (parseDelimitedValues inlineValues (delimiter header)) of
           Inl e \<Rightarrow> Inl e
         | Inr primitives \<Rightarrow>
             (case assertExpectedCount (length primitives) (length_h header)
                     ''inline array items'' options of
                Inl e \<Rightarrow> Inl e
              | Inr u \<Rightarrow> Inr (Arr primitives))))"

definition decodeTabularRow :: "ArrayHeader \<Rightarrow> ParsedLine \<Rightarrow> ResolvedOptions \<Rightarrow> error + jsvalue" where
  \<comment> \<open>the body of the loop of \<^verbatim>\<open>decodeTabularArray\<close> for a line taken as a data row;
      \<^verbatim>\<open>header.fields\<close> is defined whenever \<^verbatim>\<open>decodeTabularArray\<close> is called\<close>
  "decodeTabularRow header line options =
     (let fs = (case fields_h header of Some fs \<Rightarrow> fs | None \<Rightarrow> []);
          vals = parseDelimitedValues (content line) (delimiter header)
      in (case assertExpectedCount (length vals) (int (length fs)) ''tabular row values'' options of
            Inl e \<Rightarrow> Inl e
          | Inr u \<Rightarrow>
              (case mapRowValuesToPrimitives vals of
                 Inl e \<Rightarrow> Inl e
               | Inr primitives \<Rightarrow> Inr (tabular_row_object fs primitives))))"

function decodeTabularArray_loop ::
  "ArrayHeader \<Rightarrow> LineCursor \<Rightarrow> nat \<Rightarrow> ResolvedOptions \<Rightarrow> jsvalue list
     \<Rightarrow> error + (jsvalue list \<times> LineCursor)" where
  "decodeTabularArray_loop header cursor rowDepth options objects =
     (if \<not> atEnd cursor \<and> int (length objects) < length_h header then
        (case peek cursor of
           None \<Rightarrow> Inr (objects, cursor)
         | Some line \<Rightarrow>
             if depth line < rowDepth then Inr (objects, cursor)
             else if depth line = rowDepth then
               (if \<not> startsWith (content line) LIST_ITEM_PREFIX
                   \<and> isDataRow (content line) (delimiter header) then
                  (case decodeTabularRow header line options of
                     Inl e \<Rightarrow> Inl e
                   | Inr obj \<Rightarrow>
                       decodeTabularArray_loop header (advance cursor) rowDepth options
                         (objects @ [obj]))
                else Inr (objects, cursor))
             else Inr (objects, cursor))
      else Inr (objects, cursor))"
  by pat_completeness auto
termination
  by (relation "measure (\<lambda>(header, cursor, rowDepth, options, objects).
        length (lines cursor) - index cursor)")
     (auto simp: atEnd_def advance_def)

declare decodeTabularArray_loop.simps [simp del]

definition decodeTabularArray ::
  "ArrayHeader \<Rightarrow> LineCursor \<Rightarrow> nat \<Rightarrow> ResolvedOptions \<Rightarrow> error + (jsvalue \<times> LineCursor)" where
  "decodeTabularArray header cursor baseDepth options =
     (case decodeTabularArray_loop header cursor (baseDepth + 1) options [] of
        Inl e \<Rightarrow> Inl e
      | Inr (objects, cursor') \<Rightarrow>
          (case assertExpectedCount (length objects) (length_h header) ''tabular rows'' options of
             Inl e \<Rightarrow> Inl e
           | Inr u \<Rightarrow> Inr (Arr objects, cursor')))"

text \<open>
  \<open>decoder\<close> holds the mutually recursive functions at one bound; in the body of each
  function, \<open>call_f self\<close> is the call of \<open>f\<close>, decided at the bound below.
\<close>

record decoder =
  call_decodeObject ::
    "LineCursor \<Rightarrow> nat \<Rightarrow> ResolvedOptions \<Rightarrow> (jsvalue \<times> LineCursor) outcome"
  call_decodeObject_loop ::
    "LineCursor \<Rightarrow> nat \<Rightarrow> ResolvedOptions \<Rightarrow> jsvalue \<Rightarrow> (jsvalue \<times> LineCursor) outcome"
  call_decodeKeyValuePair ::
    "ParsedLine \<Rightarrow> LineCursor \<Rightarrow> nat \<Rightarrow> ResolvedOptions \<Rightarrow> ((jsstring \<times> jsvalue) \<times> LineCursor) outcome"
  call_decodeKeyValue ::
    "jsstring \<Rightarrow> LineCursor \<Rightarrow> nat \<Rightarrow> ResolvedOptions
       \<Rightarrow> ((jsstring \<times> jsvalue \<times> nat) \<times> LineCursor) outcome"
  call_decodeArrayFromHeader ::
    "ArrayHeader \<Rightarrow> jsstring option \<Rightarrow> LineCursor \<Rightarrow> nat \<Rightarrow> ResolvedOptions
       \<Rightarrow> (jsvalue \<times> LineCursor) outcome"
  call_decodeListArray ::
    "ArrayHeader \<Rightarrow> LineCursor \<Rightarrow> nat \<Rightarrow> ResolvedOptions \<Rightarrow> (jsvalue \<times> LineCursor) outcome"
  call_decodeListArray_loop ::
    "ArrayHeader \<Rightarrow> LineCursor \<Rightarrow> nat \<Rightarrow> ResolvedOptions \<Rightarrow> jsvalue list
       \<Rightarrow> (jsvalue list \<times> LineCursor) outcome"
  call_decodeListItem ::
    "LineCursor \<Rightarrow> nat \<Rightarrow> code_unit \<Rightarrow> ResolvedOptions \<Rightarrow> (jsvalue \<times> LineCursor) outcome"
  call_decodeObjectFromListItem ::
    "ParsedLine \<Rightarrow> LineCursor \<Rightarrow> nat \<Rightarrow> ResolvedOptions \<Rightarrow> (jsvalue \<times> LineCursor) outcome"
  call_decodeObjectFromListItem_loop ::
    "LineCursor \<Rightarrow> nat \<Rightarrow> ResolvedOptions \<Rightarrow> jsvalue \<Rightarrow> (jsvalue \<times> LineCursor) outcome"

definition decodeObject_body ::
  "decoder \<Rightarrow> LineCursor \<Rightarrow> nat \<Rightarrow> ResolvedOptions \<Rightarrow> (jsvalue \<times> LineCursor) outcome" where
  "decodeObject_body self cursor baseDepth options =
     call_decodeObject_loop self cursor baseDepth options (Obj ObjectPrototype [])"

definition decodeObject_loop_body ::
  "decoder \<Rightarrow> LineCursor \<Rightarrow> nat \<Rightarrow> ResolvedOptions \<Rightarrow> jsvalue
     \<Rightarrow> (jsvalue \<times> LineCursor) outcome" where
  \<comment> \<open>one test of the \<^verbatim>\<open>while\<close> loop of \<^verbatim>\<open>decodeObject\<close>, with \<^verbatim>\<open>obj\<close> so far\<close>
  "decodeObject_loop_body self cursor baseDepth options obj =
     (if atEnd cursor then Returns (obj, cursor)
      else
        (case peek cursor of
           None \<Rightarrow> Returns (obj, cursor)
         | Some line \<Rightarrow>
             if depth line < baseDepth then Returns (obj, cursor)
             else if depth line = baseDepth then
               (case call_decodeKeyValuePair self line cursor baseDepth options of
                  Returns ((k, v), cursor') \<Rightarrow>
                    call_decodeObject_loop self cursor' baseDepth options (set_property obj k v)
                | Throws e \<Rightarrow> Throws e
                | OutOfFuel \<Rightarrow> OutOfFuel)
             else Returns (obj, cursor)))"

definition decodeKeyValuePair_body ::
  "decoder \<Rightarrow> ParsedLine \<Rightarrow> LineCursor \<Rightarrow> nat \<Rightarrow> ResolvedOptions
     \<Rightarrow> ((jsstring \<times> jsvalue) \<times> LineCursor) outcome" where
  "decodeKeyValuePair_body self line cursor baseDepth options =
     (case call_decodeKeyValue self (content line) (advance cursor) baseDepth options of
        Returns ((k, v, followDepth), cursor') \<Rightarrow> Returns ((k, v), cursor')
      | Throws e \<Rightarrow> Throws e
      | OutOfFuel \<Rightarrow> OutOfFuel)"

definition keyed_header ::
  "(ArrayHeader \<times> jsstring option) option \<Rightarrow> (ArrayHeader \<times> jsstring option \<times> jsstring) option" where
  \<comment> \<open>the test \<^verbatim>\<open>arrayHeader && arrayHeader.header.key\<close>: a header whose key is a
      non-empty string\<close>
  "keyed_header arrayHeader =
     (case arrayHeader of
        None \<Rightarrow> None
      | Some (header, inlineValues) \<Rightarrow>
          (case key header of
             None \<Rightarrow> None
           | Some k \<Rightarrow> if k \<noteq> [] then Some (header, inlineValues, k) else None))"

definition decodeKeyValue_body ::
  "decoder \<Rightarrow> jsstring \<Rightarrow> LineCursor \<Rightarrow> nat \<Rightarrow> ResolvedOptions
     \<Rightarrow> ((jsstring \<times> jsvalue \<times> nat) \<times> LineCursor) outcome" where
  "decodeKeyValue_body self cont cursor baseDepth options =
     (case parseArrayHeaderLine cont DEFAULT_DELIMITER of
        Inl e \<Rightarrow> Throws e
      | Inr arrayHeader \<Rightarrow>
          (case keyed_header arrayHeader of
             Some (header, inlineValues, k) \<Rightarrow>
               (case call_decodeArrayFromHeader self header inlineValues cursor baseDepth options of
                  Returns (v, cursor') \<Rightarrow> Returns ((k, v, baseDepth + 1), cursor')
                | Throws e \<Rightarrow> Throws e
                | OutOfFuel \<Rightarrow> OutOfFuel)
           | None \<Rightarrow>
               (case parseKeyToken cont 0 of
                  Inl e \<Rightarrow> Throws e
                | Inr (k, e) \<Rightarrow>
                    (let rest = trim (drop e cont)
                     in if rest = [] then
                          (case peek cursor of
                             None \<Rightarrow> Returns ((k, Obj ObjectPrototype [], baseDepth + 1), cursor)
                           | Some nextLine \<Rightarrow>
                               if depth nextLine > baseDepth then
                                 (case call_decodeObject self cursor (baseDepth + 1) options of
                                    Returns (v, cursor') \<Rightarrow>
                                      Returns ((k, v, baseDepth + 1), cursor')
                                  | Throws e \<Rightarrow> Throws e
                                  | OutOfFuel \<Rightarrow> OutOfFuel)
                               else Returns ((k, Obj ObjectPrototype [], baseDepth + 1), cursor))
                        else
                          (case parsePrimitiveToken rest of
                             Inl e \<Rightarrow> Throws e
                           | Inr v \<Rightarrow> Returns ((k, v, baseDepth + 1), cursor))))))"

definition decodeArrayFromHeader_body ::
  "decoder \<Rightarrow> ArrayHeader \<Rightarrow> jsstring option \<Rightarrow> LineCursor \<Rightarrow> nat \<Rightarrow> ResolvedOptions
     \<Rightarrow> (jsvalue \<times> LineCursor) outcome" where
  "decodeArrayFromHeader_body self header inlineValues cursor baseDepth options =
     (case (case inlineValues of Some iv \<Rightarrow> if iv \<noteq> [] then Some iv else None | None \<Rightarrow> None) of
        Some iv \<Rightarrow>
          (case decodeInlinePrimitiveArray header iv options of
             Inl e \<Rightarrow> Throws e
           | Inr v \<Rightarrow> Returns (v, cursor))
      | None \<Rightarrow>
          if (case fields_h header of Some fs \<Rightarrow> fs \<noteq> [] | None \<Rightarrow> False)
          then of_result (decodeTabularArray header cursor baseDepth options)
          else call_decodeListArray self header cursor baseDepth options)"

definition decodeListArray_body ::
  "decoder \<Rightarrow> ArrayHeader \<Rightarrow> LineCursor \<Rightarrow> nat \<Rightarrow> ResolvedOptions
     \<Rightarrow> (jsvalue \<times> LineCursor) outcome" where
  "decodeListArray_body self header cursor baseDepth options =
     (case call_decodeListArray_loop self header cursor (baseDepth + 1) options [] of
        Returns (items, cursor') \<Rightarrow>
          (case assertExpectedCount (length items) (length_h header) ''list array items'' options of
             Inl e \<Rightarrow> Throws e
           | Inr u \<Rightarrow> Returns (Arr items, cursor'))
      | Throws e \<Rightarrow> Throws e
      | OutOfFuel \<Rightarrow> OutOfFuel)"

definition decodeListArray_loop_body ::
  "decoder \<Rightarrow> ArrayHeader \<Rightarrow> LineCursor \<Rightarrow> nat \<Rightarrow> ResolvedOptions \<Rightarrow> jsvalue list
     \<Rightarrow> (jsvalue list \<times> LineCursor) outcome" where
  \<comment> \<open>one test of the \<^verbatim>\<open>while\<close> loop of \<^verbatim>\<open>decodeListArray\<close>, with \<^verbatim>\<open>items\<close> so far\<close>
  "decodeListArray_loop_body self header cursor itemDepth options items =
     (if \<not> atEnd cursor \<and> int (length items) < length_h header then
        (case peek cursor of
           None \<Rightarrow> Returns (items, cursor)
         | Some line \<Rightarrow>
             if depth line < itemDepth then Returns (items, cursor)
             else if depth line = itemDepth \<and> startsWith (content line) LIST_ITEM_PREFIX then
               (case call_decodeListItem self cursor itemDepth (delimiter header) options of
                  Returns (item, cursor') \<Rightarrow>
                    call_decodeListArray_loop self header cursor' itemDepth options (items @ [item])
                | Throws e \<Rightarrow> Throws e
                | OutOfFuel \<Rightarrow> OutOfFuel)
             else Returns (items, cursor))
      else Returns (items, cursor))"

definition decodeListItem_body ::
  "decoder \<Rightarrow> LineCursor \<Rightarrow> nat \<Rightarrow> code_unit \<Rightarrow> ResolvedOptions \<Rightarrow> (jsvalue \<times> LineCursor) outcome" where
  "decodeListItem_body self cursor baseDepth activeDelimiter options =
     (case peek cursor of
        None \<Rightarrow> Throws ExpectedListItem
      | Some line \<Rightarrow>
          (let cursor1 = advance cursor;
               afterHyphen = drop (length LIST_ITEM_PREFIX) (content line)
           in (case (if isArrayHeaderAfterHyphen afterHyphen
                     then parseArrayHeaderLine afterHyphen DEFAULT_DELIMITER else Inr None) of
                 Inl e \<Rightarrow> Throws e
               | Inr (Some (header, inlineValues)) \<Rightarrow>
                   call_decodeArrayFromHeader self header inlineValues cursor1 baseDepth options
               | Inr None \<Rightarrow>
                   if isObjectFirstFieldAfterHyphen afterHyphen
                   then call_decodeObjectFromListItem self line cursor1 baseDepth options
                   else (case parsePrimitiveToken afterHyphen of
                           Inl e \<Rightarrow> Throws e
                         | Inr v \<Rightarrow> Returns (v, cursor1)))))"

definition decodeObjectFromListItem_body ::
  "decoder \<Rightarrow> ParsedLine \<Rightarrow> LineCursor \<Rightarrow> nat \<Rightarrow> ResolvedOptions
     \<Rightarrow> (jsvalue \<times> LineCursor) outcome" where
  "decodeObjectFromListItem_body self firstLine cursor baseDepth options =
     (case call_decodeKeyValue self (drop (length LIST_ITEM_PREFIX) (content firstLine)) cursor
             baseDepth options of
        Returns ((k, v, followDepth), cursor') \<Rightarrow>
          call_decodeObjectFromListItem_loop self cursor' followDepth options
            (Obj ObjectPrototype [(k, v)])
      | Throws e \<Rightarrow> Throws e
      | OutOfFuel \<Rightarrow> OutOfFuel)"

definition decodeObjectFromListItem_loop_body ::
  "decoder \<Rightarrow> LineCursor \<Rightarrow> nat \<Rightarrow> ResolvedOptions \<Rightarrow> jsvalue
     \<Rightarrow> (jsvalue \<times> LineCursor) outcome" where
  \<comment> \<open>one test of the \<^verbatim>\<open>while\<close> loop of \<^verbatim>\<open>decodeObjectFromListItem\<close>\<close>
  "decodeObjectFromListItem_loop_body self cursor followDepth options obj =
     (if atEnd cursor then Returns (obj, cursor)
      else
        (case peek cursor of
           None \<Rightarrow> Returns (obj, cursor)
         | Some line \<Rightarrow>
             if depth line < followDepth then Returns (obj, cursor)
             else if depth line = followDepth \<and> \<not> startsWith (content line) LIST_ITEM_PREFIX then
               (case call_decodeKeyValuePair self line cursor followDepth options of
                  Returns ((k, v), cursor') \<Rightarrow>
                    call_decodeObjectFromListItem_loop self cursor' followDepth options
                      (set_property obj k v)
                | Throws e \<Rightarrow> Throws e
                | OutOfFuel \<Rightarrow> OutOfFuel)
             else Returns (obj, cursor)))"

primrec decoder_at :: "nat \<Rightarrow> decoder" where
  "decoder_at 0 =
     \<lparr>call_decodeObject = (\<lambda>cursor baseDepth options. OutOfFuel),
      call_decodeObject_loop = (\<lambda>cursor baseDepth options obj. OutOfFuel),
      call_decodeKeyValuePair = (\<lambda>line cursor baseDepth options. OutOfFuel),
      call_decodeKeyValue = (\<lambda>cont cursor baseDepth options. OutOfFuel),
      call_decodeArrayFromHeader = (\<lambda>header inlineValues cursor baseDepth options. OutOfFuel),
      call_decodeListArray = (\<lambda>header cursor baseDepth options. OutOfFuel),
      call_decodeListArray_loop = (\<lambda>header cursor itemDepth options items. OutOfFuel),
      call_decodeListItem = (\<lambda>cursor baseDepth activeDelimiter options. OutOfFuel),
      call_decodeObjectFromListItem = (\<lambda>firstLine cursor baseDepth options. OutOfFuel),
      call_decodeObjectFromListItem_loop = (\<lambda>cursor followDepth options obj. OutOfFuel)\<rparr>"
| "decoder_at (Suc n) =
     (let self = decoder_at n
      in \<lparr>call_decodeObject = decodeObject_body self,
          call_decodeObject_loop = decodeObject_loop_body self,
          call_decodeKeyValuePair = decodeKeyValuePair_body self,
          call_decodeKeyValue = decodeKeyValue_body self,
          call_decodeArrayFromHeader = decodeArrayFromHeader_body self,
          call_decodeListArray = decodeListArray_body self,
          call_decodeListArray_loop = decodeListArray_loop_body self,
          call_decodeListItem = decodeListItem_body self,
          call_decodeObjectFromListItem = decodeObjectFromListItem_body self,
          call_decodeObjectFromListItem_loop = decodeObjectFromListItem_loop_body self\<rparr>)"

abbreviation decodeObject ::
  "nat \<Rightarrow> LineCursor \<Rightarrow> nat \<Rightarrow> ResolvedOptions \<Rightarrow> (jsvalue \<times> LineCursor) outcome" where
  "decodeObject n \<equiv> call_decodeObject (decoder_at n)"

abbreviation decodeObject_loop ::
  "nat \<Rightarrow> LineCursor \<Rightarrow> nat \<Rightarrow> ResolvedOptions \<Rightarrow> jsvalue \<Rightarrow> (jsvalue \<times> LineCursor) outcome" where
  "decodeObject_loop n \<equiv> call_decodeObject_loop (decoder_at n)"

abbreviation decodeKeyValuePair ::
  "nat \<Rightarrow> ParsedLine \<Rightarrow> LineCursor \<Rightarrow> nat \<Rightarrow> ResolvedOptions
     \<Rightarrow> ((jsstring \<times> jsvalue) \<times> LineCursor) outcome" where
  "decodeKeyValuePair n \<equiv> call_decodeKeyValuePair (decoder_at n)"

abbreviation decodeKeyValue ::
  "nat \<Rightarrow> jsstring \<Rightarrow> LineCursor \<Rightarrow> nat \<Rightarrow> ResolvedOptions
     \<Rightarrow> ((jsstring \<times> jsvalue \<times> nat) \<times> LineCursor) outcome" where
  "decodeKeyValue n \<equiv> call_decodeKeyValue (decoder_at n)"

abbreviation decodeArrayFromHeader ::
  "nat \<Rightarrow> ArrayHeader \<Rightarrow> jsstring option \<Rightarrow> LineCursor \<Rightarrow> nat \<Rightarrow> ResolvedOptions
     \<Rightarrow> (jsvalue \<times> LineCursor) outcome" where
  "decodeArrayFromHeader n \<equiv> call_decodeArrayFromHeader (decoder_at n)"

abbreviation decodeListArray ::
  "nat \<Rightarrow> ArrayHeader \<Rightarrow> LineCursor \<Rightarrow> nat \<Rightarrow> ResolvedOptions \<Rightarrow> (jsvalue \<times> LineCursor) outcome" where
  "decodeListArray n \<equiv> call_decodeListArray (decoder_at n)"



abbreviation decodeObjectFromListItem ::
  "nat \<Rightarrow> ParsedLine \<Rightarrow> LineCursor \<Rightarrow> nat \<Rightarrow> ResolvedOptions \<Rightarrow> (jsvalue \<times> LineCursor) outcome" where
  "decodeObjectFromListItem n \<equiv> call_decodeObjectFromListItem (decoder_at n)"

abbreviation decodeObjectFromListItem_loop ::
  "nat \<Rightarrow> LineCursor \<Rightarrow> nat \<Rightarrow> ResolvedOptions \<Rightarrow> jsvalue \<Rightarrow> (jsvalue \<times> LineCursor) outcome" where
  "decodeObjectFromListItem_loop n \<equiv> call_decodeObjectFromListItem_loop (decoder_at n)"

definition decode_fuel :: "LineCursor \<Rightarrow> nat" where
  "decode_fuel cursor = 8 * length (lines cursor) + 8"

definition decodeValueFromLines :: "LineCursor \<Rightarrow> ResolvedOptions \<Rightarrow> jsvalue outcome" where
  "decodeValueFromLines cursor options =
     (case peek cursor of
        None \<Rightarrow> Throws NoContent
      | Some first \<Rightarrow>
          (case (if isArrayHeaderAfterHyphen (content first)
                 then parseArrayHeaderLine (content first) DEFAULT_DELIMITER else Inr None) of
             Inl e \<Rightarrow> Throws e
           | Inr (Some (header, inlineValues)) \<Rightarrow>
               (case decodeArrayFromHeader (decode_fuel cursor) header inlineValues
                       (advance cursor) 0 options of
                  Returns (v, cursor') \<Rightarrow> Returns v
                | Throws e \<Rightarrow> Throws e
                | OutOfFuel \<Rightarrow> OutOfFuel)
           | Inr None \<Rightarrow>
               if cursor_length cursor = 1 \<and> \<not> isKeyValueLine first then
                 of_result (parsePrimitiveToken (trim (content first)))
               else
                 (case decodeObject (decode_fuel cursor) cursor 0 options of
                    Returns (v, cursor') \<Rightarrow> Returns v
                  | Throws e \<Rightarrow> Throws e
                  | OutOfFuel \<Rightarrow> OutOfFuel)))"

definition deserialize :: "jsstring \<Rightarrow> bool \<Rightarrow> jsvalue outcome" where
  \<comment> \<open>\<^verbatim>\<open>deserialize(toonStr, {strict})\<close>; \<open>strict\<close> is \<open>False\<close> when no option is given\<close>
  "deserialize toonStr strct =
     (let resolvedOptions = \<lparr>opt_indent = DEFAULT_INDENT_SIZE, strict = strct\<rparr>
      in (case toParsedLines toonStr (opt_indent resolvedOptions) (strict resolvedOptions) of
            Inl e \<Rightarrow> Throws e
          | Inr (parsed, blanks) \<Rightarrow>
              if length parsed = 0 then Throws EmptyInput
              else decodeValueFromLines \<lparr>lines = parsed, index = 0, blankLines = blanks\<rparr>
                     resolvedOptions))"

section \<open>Invariants of the decoder\<close>

lemma decoder_step:
  "call_decodeObject (decoder_at (Suc n)) = decodeObject_body (decoder_at n)"
  "call_decodeObject_loop (decoder_at (Suc n)) = decodeObject_loop_body (decoder_at n)"
  "call_decodeKeyValuePair (decoder_at (Suc n)) = decodeKeyValuePair_body (decoder_at n)"
  "call_decodeKeyValue (decoder_at (Suc n)) = decodeKeyValue_body (decoder_at n)"
  "call_decodeArrayFromHeader (decoder_at (Suc n)) = decodeArrayFromHeader_body (decoder_at n)"
  "call_decodeListArray (decoder_at (Suc n)) = decodeListArray_body (decoder_at n)"
  "call_decodeListArray_loop (decoder_at (Suc n)) = decodeListArray_loop_body (decoder_at n)"
  "call_decodeListItem (decoder_at (Suc n)) = decodeListItem_body (decoder_at n)"
  "call_decodeObjectFromListItem (decoder_at (Suc n)) = decodeObjectFromListItem_body (decoder_at n)"
  "call_decodeObjectFromListItem_loop (decoder_at (Suc n)) = decodeObjectFromListItem_loop_body (decoder_at n)"
  by (simp_all add: Let_def)

definition token_error :: "error \<Rightarrow> bool" where
  "token_error e =
     (case e of UnterminatedString \<Rightarrow> True | UnexpectedAfterClosingQuote \<Rightarrow> True
      | MissingColonAfterKey \<Rightarrow> True | UnterminatedQuotedKey \<Rightarrow> True | BackslashAtEnd \<Rightarrow> True
      | InvalidEscape c \<Rightarrow> True | _ \<Rightarrow> False)"

definition decode_error :: "ResolvedOptions \<Rightarrow> error \<Rightarrow> bool" where
  "decode_error options e =
     (token_error e \<or> e = ExpectedListItem
      \<or> (strict options \<and> (case e of CountMismatch x t a \<Rightarrow> True | _ \<Rightarrow> False)))"

lemma map_sum_id_Inl: "map_sum id g r = Inl e \<longleftrightarrow> r = Inl e"
  by (cases r) auto

lemma unescapeString_error: "unescapeString s = Inl e \<Longrightarrow> token_error e"
  by (induction s arbitrary: e rule: unescapeString.induct)
     (auto simp: token_error_def map_sum_id_Inl split: if_splits)

lemma parseStringLiteral_error: "parseStringLiteral t = Inl e \<Longrightarrow> token_error e"
  by (auto simp: parseStringLiteral_def Let_def token_error_def
           split: if_splits option.splits dest: unescapeString_error)

lemma parsePrimitiveToken_error: "parsePrimitiveToken t = Inl e \<Longrightarrow> token_error e"
  by (auto simp: parsePrimitiveToken_def Let_def map_sum_id_Inl
           split: if_splits dest: parseStringLiteral_error)

lemma mapRowValuesToPrimitives_error: "mapRowValuesToPrimitives vs = Inl e \<Longrightarrow> token_error e"
  by (induction vs arbitrary: e)
     (auto simp: map_sum_id_Inl split: sum.splits dest: parsePrimitiveToken_error)

lemma parseFieldNames_error: "parseFieldNames fs = Inl e \<Longrightarrow> token_error e"
  by (induction fs arbitrary: e)
     (auto simp: map_sum_id_Inl split: sum.splits dest: parseStringLiteral_error)

lemma parseKeyToken_error: "parseKeyToken c s = Inl e \<Longrightarrow> token_error e"
  by (auto simp: parseKeyToken_def parseQuotedKey_def parseUnquotedKey_def Let_def token_error_def
           split: if_splits option.splits sum.splits dest: unescapeString_error)

lemma parseArrayHeaderLine_error: "parseArrayHeaderLine c d = Inl e \<Longrightarrow> token_error e"
  unfolding parseArrayHeaderLine_def header_fields_def
  by (auto simp: map_sum_id_Inl split: if_splits option.splits sum.splits prod.splits
           dest: parseFieldNames_error)

lemma assertExpectedCount_error:
  "assertExpectedCount a x t options = Inl e \<Longrightarrow> decode_error options e"
  by (auto simp: assertExpectedCount_def decode_error_def split: if_splits)

lemma token_error_decode_error: "token_error e \<Longrightarrow> decode_error options e"
  by (simp add: decode_error_def)

lemma decodeInlinePrimitiveArray_error:
  "decodeInlinePrimitiveArray h iv options = Inl e \<Longrightarrow> decode_error options e"
  by (auto simp: decodeInlinePrimitiveArray_def split: if_splits sum.splits
           dest: assertExpectedCount_error mapRowValuesToPrimitives_error token_error_decode_error)


lemma decodeTabularRow_error:
  "decodeTabularRow h l options = Inl e \<Longrightarrow> decode_error options e"
  by (auto simp: decodeTabularRow_def Let_def split: sum.splits
           dest: assertExpectedCount_error mapRowValuesToPrimitives_error token_error_decode_error)

definition tabular_continues :: "ArrayHeader \<Rightarrow> LineCursor \<Rightarrow> nat \<Rightarrow> jsvalue list \<Rightarrow> bool" where
  "tabular_continues header cursor rowDepth objects =
     (\<not> atEnd cursor \<and> int (length objects) < length_h header
      \<and> (case peek cursor of
            None \<Rightarrow> False
          | Some line \<Rightarrow>
              depth line = rowDepth \<and> \<not> startsWith (content line) LIST_ITEM_PREFIX
              \<and> isDataRow (content line) (delimiter header)))"

lemma decodeTabularArray_loop_stop:
  "\<not> tabular_continues h c d objs \<Longrightarrow> decodeTabularArray_loop h c d options objs = Inr (objs, c)"
  by (subst decodeTabularArray_loop.simps)
     (auto simp: tabular_continues_def split: option.splits)

lemma decodeTabularArray_loop_continue:
  "tabular_continues h c d objs \<Longrightarrow> peek c = Some l \<Longrightarrow>
   decodeTabularArray_loop h c d options objs =
     (case decodeTabularRow h l options of
        Inl e \<Rightarrow> Inl e
      | Inr obj \<Rightarrow> decodeTabularArray_loop h (advance c) d options (objs @ [obj]))"
  by (subst decodeTabularArray_loop.simps)
     (auto simp: tabular_continues_def split: option.splits)

lemma decodeTabularArray_loop_error:
  "decodeTabularArray_loop h c d options objs = Inl e \<Longrightarrow> decode_error options e"
proof (induction h c d options objs rule: decodeTabularArray_loop.induct)
  case (1 h c d options objs)
  show ?case
  proof (cases "tabular_continues h c d objs")
    case False
    with "1.prems" show ?thesis by (simp add: decodeTabularArray_loop_stop)
  next
    case True
    then obtain l where l: "peek c = Some l"
      by (auto simp: tabular_continues_def split: option.splits)
    show ?thesis
    proof (cases "decodeTabularRow h l options")
      case (Inl e')
      with "1.prems" True l show ?thesis
        by (simp add: decodeTabularArray_loop_continue decodeTabularRow_error)
    next
      case (Inr obj)
      with "1.prems" True l have "decodeTabularArray_loop h (advance c) d options (objs @ [obj]) = Inl e"
        by (simp add: decodeTabularArray_loop_continue)
      moreover from True l have "\<not> atEnd c \<and> int (length objs) < length_h h"
        "\<not> depth l < d" "depth l = d"
        "\<not> startsWith (content l) LIST_ITEM_PREFIX \<and> isDataRow (content l) (delimiter h)"
        by (auto simp: tabular_continues_def)
      ultimately show ?thesis using "1.IH" [OF _ l _ _ _ Inr] by blast
    qed
  qed
qed

lemma decodeTabularArray_loop_cursor:
  "decodeTabularArray_loop h c d options objs = Inr (objs', c')
   \<Longrightarrow> lines c' = lines c \<and> index c \<le> index c'"
proof (induction h c d options objs rule: decodeTabularArray_loop.induct)
  case (1 h c d options objs)
  show ?case
  proof (cases "tabular_continues h c d objs")
    case False
    with "1.prems" show ?thesis by (simp add: decodeTabularArray_loop_stop)
  next
    case True
    then obtain l where l: "peek c = Some l"
      by (auto simp: tabular_continues_def split: option.splits)
    show ?thesis
    proof (cases "decodeTabularRow h l options")
      case (Inl e')
      with "1.prems" True l show ?thesis
        by (simp add: decodeTabularArray_loop_continue)
    next
      case (Inr obj)
      with "1.prems" True l
      have "decodeTabularArray_loop h (advance c) d options (objs @ [obj]) = Inr (objs', c')"
        by (simp add: decodeTabularArray_loop_continue)
      moreover from True l have "\<not> atEnd c \<and> int (length objs) < length_h h"
        "\<not> depth l < d" "depth l = d"
        "\<not> startsWith (content l) LIST_ITEM_PREFIX \<and> isDataRow (content l) (delimiter h)"
        by (auto simp: tabular_continues_def)
      ultimately have "lines c' = lines (advance c) \<and> index (advance c) \<le> index c'"
        using "1.IH" [OF _ l _ _ _ Inr] by blast
      then show ?thesis by (simp add: advance_def)
    qed
  qed
qed

datatype fn = F_Object | F_ObjectLoop | F_KeyValuePair | F_KeyValue | F_ArrayFromHeader
  | F_ListArray | F_ListArrayLoop | F_ListItem | F_ObjectFromListItem | F_ObjectFromListItemLoop

fun need :: "fn \<Rightarrow> nat \<Rightarrow> nat" where
  "need F_Object r = 6 * r + 3"
| "need F_ObjectLoop r = 6 * r + 2"
| "need F_KeyValuePair r = 6 * (r - 1) + 7"
| "need F_KeyValue r = 6 * r + 5"
| "need F_ArrayFromHeader r = 6 * r + 4"
| "need F_ListArray r = 6 * r + 3"
| "need F_ListArrayLoop r = 6 * r + 2"
| "need F_ListItem r = 6 * (r - 1) + 7"
| "need F_ObjectFromListItem r = 6 * r + 6"
| "need F_ObjectFromListItemLoop r = 6 * r + 2"

definition remaining :: "LineCursor \<Rightarrow> nat" where
  "remaining c = length (lines c) - index c"

definition good :: "fn \<Rightarrow> nat \<Rightarrow> LineCursor \<Rightarrow> ResolvedOptions \<Rightarrow> ('a \<times> LineCursor) outcome \<Rightarrow> bool" where
  "good f n c options res =
     (case res of
        Returns (x, c') \<Rightarrow>
          lines c' = lines c \<and> index c \<le> index c'
          \<and> ((f = F_KeyValuePair \<or> f = F_ListItem) \<longrightarrow> index c < index c')
      | Throws e \<Rightarrow> decode_error options e
      | OutOfFuel \<Rightarrow> n < need f (remaining c))"

definition decoder_good :: "nat \<Rightarrow> decoder \<Rightarrow> bool" where
  "decoder_good n self =
     ((\<forall>c d opts. good F_Object n c opts (call_decodeObject self c d opts))
      \<and> (\<forall>c d opts obj. good F_ObjectLoop n c opts (call_decodeObject_loop self c d opts obj))
      \<and> (\<forall>l c d opts. good F_KeyValuePair n c opts (call_decodeKeyValuePair self l c d opts))
      \<and> (\<forall>s c d opts. good F_KeyValue n c opts (call_decodeKeyValue self s c d opts))
      \<and> (\<forall>h iv c d opts. good F_ArrayFromHeader n c opts (call_decodeArrayFromHeader self h iv c d opts))
      \<and> (\<forall>h c d opts. good F_ListArray n c opts (call_decodeListArray self h c d opts))
      \<and> (\<forall>h c d opts xs. good F_ListArrayLoop n c opts (call_decodeListArray_loop self h c d opts xs))
      \<and> (\<forall>c d a opts. good F_ListItem n c opts (call_decodeListItem self c d a opts))
      \<and> (\<forall>l c d opts. good F_ObjectFromListItem n c opts (call_decodeObjectFromListItem self l c d opts))
      \<and> (\<forall>c d opts obj. good F_ObjectFromListItemLoop n c opts
             (call_decodeObjectFromListItem_loop self c d opts obj)))"

lemma decoder_goodD:
  assumes "decoder_good n self"
  shows "good F_Object n c opts (call_decodeObject self c d opts)"
    and "good F_ObjectLoop n c opts (call_decodeObject_loop self c d opts obj)"
    and "good F_KeyValuePair n c opts (call_decodeKeyValuePair self l c d opts)"
    and "good F_KeyValue n c opts (call_decodeKeyValue self s c d opts)"
    and "good F_ArrayFromHeader n c opts (call_decodeArrayFromHeader self h iv c d opts)"
    and "good F_ListArray n c opts (call_decodeListArray self h c d opts)"
    and "good F_ListArrayLoop n c opts (call_decodeListArray_loop self h c d opts xs)"
    and "good F_ListItem n c opts (call_decodeListItem self c d a opts)"
    and "good F_ObjectFromListItem n c opts (call_decodeObjectFromListItem self l c d opts)"
    and "good F_ObjectFromListItemLoop n c opts (call_decodeObjectFromListItem_loop self c d opts obj)"
  using assms unfolding decoder_good_def by simp_all


lemma good_Returns [simp]:
  "good f n c options (Returns (x, c')) \<longleftrightarrow>
     lines c' = lines c \<and> index c \<le> index c'
     \<and> ((f = F_KeyValuePair \<or> f = F_ListItem) \<longrightarrow> index c < index c')"
  by (simp add: good_def)

lemma good_Throws [simp]: "good f n c options (Throws e) \<longleftrightarrow> decode_error options e"
  by (simp add: good_def)

lemma good_OutOfFuel [simp]: "good f n c options OutOfFuel \<longleftrightarrow> n < need f (remaining c)"
  by (simp add: good_def)

lemma good_bind:
  assumes m: "good g n ca options m"
    and fuel: "need g (remaining ca) < need f (remaining c)"
    and k: "\<And>x c'. m = Returns (x, c') \<Longrightarrow> lines c' = lines ca \<Longrightarrow> index ca \<le> index c'
             \<Longrightarrow> ((g = F_KeyValuePair \<or> g = F_ListItem) \<longrightarrow> index ca < index c')
             \<Longrightarrow> good f (Suc n) c options (k (x, c'))"
  shows "good f (Suc n) c options
           (case m of Returns p \<Rightarrow> k p | Throws e \<Rightarrow> Throws e | OutOfFuel \<Rightarrow> OutOfFuel)"
proof (cases m)
  case (Returns p)
  obtain x c' where p: "p = (x, c')" by (cases p) auto
  with Returns m have "lines c' = lines ca" "index ca \<le> index c'"
    "(g = F_KeyValuePair \<or> g = F_ListItem) \<longrightarrow> index ca < index c'"
    by auto
  with k [of x c'] Returns p show ?thesis by simp
next
  case (Throws e)
  with m show ?thesis by simp
next
  case OutOfFuel
  with m fuel show ?thesis by simp
qed

lemma remaining_advance: "remaining (advance c) = remaining c - 1"
  by (simp add: remaining_def advance_def)

lemma remaining_mono: "lines c' = lines c \<Longrightarrow> index c \<le> index c' \<Longrightarrow> remaining c' \<le> remaining c"
  by (simp add: remaining_def)

lemma remaining_less:
  "lines c' = lines c \<Longrightarrow> index c < index c' \<Longrightarrow> peek c = Some l \<Longrightarrow> remaining c' < remaining c"
  by (auto simp: remaining_def peek_def split: if_splits)

lemma peek_remaining: "peek c = Some l \<Longrightarrow> 0 < remaining c"
  by (auto simp: remaining_def peek_def split: if_splits)

lemma good_Object:
  assumes "decoder_good n self"
  shows "good F_Object (Suc n) c opts (decodeObject_body self c d opts)"
  using decoder_goodD(2) [OF assms, of c opts d "Obj ObjectPrototype []"]
  by (cases "call_decodeObject_loop self c d opts (Obj ObjectPrototype [])")
     (auto simp: decodeObject_body_def)

lemma good_KeyValuePair:
  assumes "decoder_good n self"
  shows "good F_KeyValuePair (Suc n) c opts (decodeKeyValuePair_body self l c d opts)"
proof -
  have "good F_KeyValue n (advance c) opts (call_decodeKeyValue self (content l) (advance c) d opts)"
    by (rule decoder_goodD(4) [OF assms])
  then show ?thesis
    by (cases "call_decodeKeyValue self (content l) (advance c) d opts")
       (auto simp: decodeKeyValuePair_body_def remaining_advance, auto simp: advance_def)
qed

lemma good_ListArray:
  assumes "decoder_good n self"
  shows "good F_ListArray (Suc n) c opts (decodeListArray_body self h c d opts)"
  using decoder_goodD(7) [OF assms, of c opts h "d + 1" "[]"]
  by (cases "call_decodeListArray_loop self h c (d + 1) opts []")
     (auto simp: decodeListArray_body_def split: sum.splits dest: assertExpectedCount_error)

lemma good_ArrayFromHeader:
  assumes "decoder_good n self"
  shows "good F_ArrayFromHeader (Suc n) c opts (decodeArrayFromHeader_body self h iv c d opts)"
proof -
  have la: "good F_ArrayFromHeader (Suc n) c opts (call_decodeListArray self h c d opts)"
    using decoder_goodD(6) [OF assms, of c opts h d]
    by (cases "call_decodeListArray self h c d opts") auto
  have tab: "good F_ArrayFromHeader (Suc n) c opts (of_result (decodeTabularArray h c d opts))"
    by (auto simp: of_result_def decodeTabularArray_def split: sum.splits
             dest: decodeTabularArray_loop_error decodeTabularArray_loop_cursor
                   assertExpectedCount_error)
  have inl: "\<And>s. good F_ArrayFromHeader (Suc n) c opts
               (case decodeInlinePrimitiveArray h s opts of Inl e \<Rightarrow> Throws e | Inr v \<Rightarrow> Returns (v, c))"
    by (auto split: sum.splits dest: decodeInlinePrimitiveArray_error)
  show ?thesis
    unfolding decodeArrayFromHeader_body_def
    using la tab inl by (simp split: option.splits)
qed


lemma good_transfer:
  assumes "good g n c' options r"
    and "lines c' = lines c" and "index c \<le> index c'"
    and "need g (remaining c') < need f (remaining c)"
    and "(f = F_KeyValuePair \<or> f = F_ListItem) \<longrightarrow> index c < index c'"
  shows "good f (Suc n) c options r"
proof (cases r)
  case (Returns p)
  obtain x c'' where "p = (x, c'')" by (cases p) auto
  with Returns assms show ?thesis by auto
qed (use assms in auto)

lemma good_ObjectLoop:
  assumes "decoder_good n self"
  shows "good F_ObjectLoop (Suc n) c opts (decodeObject_loop_body self c d opts obj)"
proof (cases "peek c")
  case None
  then show ?thesis by (simp add: decodeObject_loop_body_def)
next
  case (Some line)
  have "good F_ObjectLoop (Suc n) c opts
          (case call_decodeKeyValuePair self line c d opts of
             Returns p \<Rightarrow> (case p of ((k, v), cursor') \<Rightarrow>
               call_decodeObject_loop self cursor' d opts (set_property obj k v))
           | Throws e \<Rightarrow> Throws e
           | OutOfFuel \<Rightarrow> OutOfFuel)"
  proof (rule good_bind [where g = F_KeyValuePair and ca = c])
    show "good F_KeyValuePair n c opts (call_decodeKeyValuePair self line c d opts)"
      by (rule decoder_goodD(3) [OF assms])
    show "need F_KeyValuePair (remaining c) < need F_ObjectLoop (remaining c)"
      using peek_remaining [OF Some] by simp
  next
    fix x :: "jsstring \<times> jsvalue" and c' :: LineCursor
    assume a: "lines c' = lines c" "index c \<le> index c'"
      "(F_KeyValuePair = F_KeyValuePair \<or> F_KeyValuePair = F_ListItem) \<longrightarrow> index c < index c'"
    obtain k v where x: "x = (k, v)" by (cases x) auto
    have r: "remaining c' < remaining c" using a Some by (auto intro: remaining_less)
    have "good F_ObjectLoop (Suc n) c opts (call_decodeObject_loop self c' d opts (set_property obj k v))"
      by (rule good_transfer [OF decoder_goodD(2) [OF assms]]) (use a r in auto)
    then show "good F_ObjectLoop (Suc n) c opts
                 (case (x, c') of ((k, v), cursor') \<Rightarrow>
                    call_decodeObject_loop self cursor' d opts (set_property obj k v))"
      by (simp add: x)
  qed
  then show ?thesis using Some
    by (simp add: decodeObject_loop_body_def atEnd_def peek_def split: if_splits)
qed

lemma good_ObjectFromListItemLoop:
  assumes "decoder_good n self"
  shows "good F_ObjectFromListItemLoop (Suc n) c opts
           (decodeObjectFromListItem_loop_body self c d opts obj)"
proof (cases "peek c")
  case None
  then show ?thesis by (simp add: decodeObjectFromListItem_loop_body_def)
next
  case (Some line)
  have "good F_ObjectFromListItemLoop (Suc n) c opts
          (case call_decodeKeyValuePair self line c d opts of
             Returns p \<Rightarrow> (case p of ((k, v), cursor') \<Rightarrow>
               call_decodeObjectFromListItem_loop self cursor' d opts (set_property obj k v))
           | Throws e \<Rightarrow> Throws e
           | OutOfFuel \<Rightarrow> OutOfFuel)"
  proof (rule good_bind [where g = F_KeyValuePair and ca = c])
    show "good F_KeyValuePair n c opts (call_decodeKeyValuePair self line c d opts)"
      by (rule decoder_goodD(3) [OF assms])
    show "need F_KeyValuePair (remaining c) < need F_ObjectFromListItemLoop (remaining c)"
      using peek_remaining [OF Some] by simp
  next
    fix x :: "jsstring \<times> jsvalue" and c' :: LineCursor
    assume a: "lines c' = lines c" "index c \<le> index c'"
      "(F_KeyValuePair = F_KeyValuePair \<or> F_KeyValuePair = F_ListItem) \<longrightarrow> index c < index c'"
    obtain k v where x: "x = (k, v)" by (cases x) auto
    have r: "remaining c' < remaining c" using a Some by (auto intro: remaining_less)
    have "good F_ObjectFromListItemLoop (Suc n) c opts
            (call_decodeObjectFromListItem_loop self c' d opts (set_property obj k v))"
      by (rule good_transfer [OF decoder_goodD(10) [OF assms]]) (use a r in auto)
    then show "good F_ObjectFromListItemLoop (Suc n) c opts
                 (case (x, c') of ((k, v), cursor') \<Rightarrow>
                    call_decodeObjectFromListItem_loop self cursor' d opts (set_property obj k v))"
      by (simp add: x)
  qed
  then show ?thesis using Some
    by (simp add: decodeObjectFromListItem_loop_body_def atEnd_def peek_def split: if_splits)
qed

lemma good_ListArrayLoop:
  assumes "decoder_good n self"
  shows "good F_ListArrayLoop (Suc n) c opts (decodeListArray_loop_body self h c d opts xs)"
proof (cases "peek c")
  case None
  then show ?thesis by (simp add: decodeListArray_loop_body_def)
next
  case (Some line)
  have "good F_ListArrayLoop (Suc n) c opts
          (case call_decodeListItem self c d (delimiter h) opts of
             Returns p \<Rightarrow> (case p of (item, cursor') \<Rightarrow>
               call_decodeListArray_loop self h cursor' d opts (xs @ [item]))
           | Throws e \<Rightarrow> Throws e
           | OutOfFuel \<Rightarrow> OutOfFuel)"
  proof (rule good_bind [where g = F_ListItem and ca = c])
    show "good F_ListItem n c opts (call_decodeListItem self c d (delimiter h) opts)"
      by (rule decoder_goodD(8) [OF assms])
    show "need F_ListItem (remaining c) < need F_ListArrayLoop (remaining c)"
      using peek_remaining [OF Some] by simp
  next
    fix x :: jsvalue and c' :: LineCursor
    assume a: "lines c' = lines c" "index c \<le> index c'"
      "(F_ListItem = F_KeyValuePair \<or> F_ListItem = F_ListItem) \<longrightarrow> index c < index c'"
    have r: "remaining c' < remaining c" using a Some by (auto intro: remaining_less)
    have "good F_ListArrayLoop (Suc n) c opts (call_decodeListArray_loop self h c' d opts (xs @ [x]))"
      by (rule good_transfer [OF decoder_goodD(7) [OF assms]]) (use a r in auto)
    then show "good F_ListArrayLoop (Suc n) c opts
                 (case (x, c') of (item, cursor') \<Rightarrow>
                    call_decodeListArray_loop self h cursor' d opts (xs @ [item]))"
      by simp
  qed
  then show ?thesis using Some
    by (simp add: decodeListArray_loop_body_def atEnd_def peek_def split: if_splits)
qed

lemma good_ObjectFromListItem:
  assumes "decoder_good n self"
  shows "good F_ObjectFromListItem (Suc n) c opts (decodeObjectFromListItem_body self l c d opts)"
  unfolding decodeObjectFromListItem_body_def
proof (rule good_bind [where g = F_KeyValue and ca = c])
  show "good F_KeyValue n c opts
          (call_decodeKeyValue self (drop (length LIST_ITEM_PREFIX) (content l)) c d opts)"
    by (rule decoder_goodD(4) [OF assms])
  show "need F_KeyValue (remaining c) < need F_ObjectFromListItem (remaining c)" by simp
next
  fix x :: "jsstring \<times> jsvalue \<times> nat" and c' :: LineCursor
  assume a: "lines c' = lines c" "index c \<le> index c'"
  obtain k v fd where x: "x = (k, v, fd)" by (cases x) auto
  have r: "remaining c' \<le> remaining c" using a by (rule remaining_mono)
  have "good F_ObjectFromListItem (Suc n) c opts
          (call_decodeObjectFromListItem_loop self c' fd opts (Obj ObjectPrototype [(k, v)]))"
    by (rule good_transfer [OF decoder_goodD(10) [OF assms]]) (use a r in auto)
  then show "good F_ObjectFromListItem (Suc n) c opts
               (case (x, c') of ((k, v, followDepth), cursor') \<Rightarrow>
                  call_decodeObjectFromListItem_loop self cursor' followDepth opts
                    (Obj ObjectPrototype [(k, v)]))"
    by (simp add: x)
qed


lemma good_KeyValue:
  assumes "decoder_good n self"
  shows "good F_KeyValue (Suc n) c opts (decodeKeyValue_body self s c d opts)"
proof -
  have A: "\<And>h iv k. good F_KeyValue (Suc n) c opts
            (case call_decodeArrayFromHeader self h iv c d opts of
               Returns p \<Rightarrow> (case p of (v, cursor') \<Rightarrow> Returns ((k, v, d + 1), cursor'))
             | Throws e \<Rightarrow> Throws e
             | OutOfFuel \<Rightarrow> OutOfFuel)"
    by (rule good_bind [where g = F_ArrayFromHeader and ca = c])
       (auto intro: decoder_goodD(5) [OF assms])
  have B: "\<And>k. good F_KeyValue (Suc n) c opts
            (case call_decodeObject self c (d + 1) opts of
               Returns p \<Rightarrow> (case p of (v, cursor') \<Rightarrow> Returns ((k, v, d + 1), cursor'))
             | Throws e \<Rightarrow> Throws e
             | OutOfFuel \<Rightarrow> OutOfFuel)"
    by (rule good_bind [where g = F_Object and ca = c])
       (auto intro: decoder_goodD(1) [OF assms])
  show ?thesis
  proof (cases "parseArrayHeaderLine s DEFAULT_DELIMITER")
    case (Inl e)
    then show ?thesis
      by (simp add: decodeKeyValue_body_def parseArrayHeaderLine_error token_error_decode_error)
  next
    case ah: (Inr arrayHeader)
    show ?thesis
    proof (cases "keyed_header arrayHeader")
      case (Some t)
      obtain h iv k where "t = (h, iv, k)" by (cases t) auto
      with ah Some A [of k h iv] show ?thesis by (simp add: decodeKeyValue_body_def)
    next
      case None
      show ?thesis
      proof (cases "parseKeyToken s 0")
        case (Inl e)
        with ah None show ?thesis
          by (simp add: decodeKeyValue_body_def parseKeyToken_error token_error_decode_error)
      next
        case (Inr ke)
        obtain k e where ke: "ke = (k, e)" by (cases ke) auto
        show ?thesis
        proof (cases "trim (drop e s) = []")
          case True
          show ?thesis
          proof (cases "peek c")
            case pn: None
            with ah None Inr ke True show ?thesis by (simp add: decodeKeyValue_body_def)
          next
            case ps: (Some nextLine)
            with ah None Inr ke True B [of k] show ?thesis
              by (simp add: decodeKeyValue_body_def)
          qed
        next
          case False
          with ah None Inr ke show ?thesis
            by (cases "parsePrimitiveToken (trim (drop e s))")
               (simp_all add: decodeKeyValue_body_def parsePrimitiveToken_error
                  token_error_decode_error)
        qed
      qed
    qed
  qed
qed

lemma good_ListItem:
  assumes "decoder_good n self"
  shows "good F_ListItem (Suc n) c opts (decodeListItem_body self c d a opts)"
proof (cases "peek c")
  case None
  then show ?thesis by (simp add: decodeListItem_body_def decode_error_def)
next
  case (Some line)
  let ?ah = "drop (Suc (Suc 0)) (content line)"
  have adv: "lines (advance c) = lines c" "index c < index (advance c)"
    by (simp_all add: advance_def)
  have r: "need F_ArrayFromHeader (remaining (advance c)) < need F_ListItem (remaining c)"
    "need F_ObjectFromListItem (remaining (advance c)) < need F_ListItem (remaining c)"
    by (simp_all add: remaining_advance)
  have A: "\<And>h iv. good F_ListItem (Suc n) c opts
             (call_decodeArrayFromHeader self h iv (advance c) d opts)"
    by (rule good_transfer [OF decoder_goodD(5) [OF assms]]) (use adv r in auto)
  have B: "good F_ListItem (Suc n) c opts
             (call_decodeObjectFromListItem self line (advance c) d opts)"
    by (rule good_transfer [OF decoder_goodD(9) [OF assms]]) (use adv r in auto)
  have C: "good F_ListItem (Suc n) c opts
             (case parsePrimitiveToken ?ah of
                Inl e \<Rightarrow> Throws e
              | Inr v \<Rightarrow> Returns (v, advance c))"
    using adv
    by (cases "parsePrimitiveToken ?ah")
       (simp_all add: parsePrimitiveToken_error token_error_decode_error)
  show ?thesis
  proof (cases "isArrayHeaderAfterHyphen ?ah")
    case False
    with Some B C show ?thesis by (simp add: decodeListItem_body_def Let_def)
  next
    case True
    show ?thesis
    proof (cases "parseArrayHeaderLine ?ah DEFAULT_DELIMITER")
      case (Inl e)
      with True Some show ?thesis
        by (simp add: decodeListItem_body_def Let_def parseArrayHeaderLine_error
              token_error_decode_error)
    next
      case (Inr ah)
      show ?thesis
      proof (cases ah)
        case None
        with True Inr Some B C show ?thesis by (simp add: decodeListItem_body_def Let_def)
      next
        case st: (Some t)
        obtain h iv where "t = (h, iv)" by (cases t) auto
        with True Inr st Some A [of h iv] show ?thesis
          by (simp add: decodeListItem_body_def Let_def)
      qed
    qed
  qed
qed

lemma decoder_good_0: "decoder_good 0 (decoder_at 0)"
  by (simp add: decoder_good_def)

lemma decoder_good_Suc:
  assumes "decoder_good n (decoder_at n)"
  shows "decoder_good (Suc n) (decoder_at (Suc n))"
  unfolding decoder_good_def [of "Suc n"] decoder_step
  by (intro conjI allI good_Object [OF assms] good_ObjectLoop [OF assms]
        good_KeyValuePair [OF assms] good_KeyValue [OF assms] good_ArrayFromHeader [OF assms]
        good_ListArray [OF assms] good_ListArrayLoop [OF assms] good_ListItem [OF assms]
        good_ObjectFromListItem [OF assms] good_ObjectFromListItemLoop [OF assms])

lemma decoder_at_good: "decoder_good n (decoder_at n)"
  by (induction n) (simp_all only: decoder_good_0 decoder_good_Suc)

lemma of_result_simps [simp]:
  "of_result (Inl e) = Throws e" "of_result (Inr x) = Returns x"
  by (simp_all add: of_result_def)

definition top_level_ok :: "ResolvedOptions \<Rightarrow> jsvalue outcome \<Rightarrow> bool" where
  "top_level_ok options r =
     (case r of Returns v \<Rightarrow> True | Throws e \<Rightarrow> decode_error options e | OutOfFuel \<Rightarrow> False)"

lemma top_level_ok_simps [simp]:
  "top_level_ok options (Returns v)"
  "top_level_ok options (Throws e) = decode_error options e"
  "\<not> top_level_ok options OutOfFuel"
  by (simp_all add: top_level_ok_def)

lemma top_level_ok_drop_cursor:
  assumes "good f n c options r" and "\<not> n < need f (remaining c)"
  shows "top_level_ok options
           (case r of Returns p \<Rightarrow> (case p of (v, cursor') \<Rightarrow> Returns v)
            | Throws e \<Rightarrow> Throws e | OutOfFuel \<Rightarrow> OutOfFuel)"
  using assms by (cases r) (auto split: prod.splits)

lemma decodeValueFromLines_ok:
  assumes "peek c \<noteq> None"
  shows "top_level_ok opts (decodeValueFromLines c opts)"
proof -
  from assms obtain first where first: "peek c = Some first" by auto
  have A: "\<And>h iv. top_level_ok opts
             (case decodeArrayFromHeader (decode_fuel c) h iv (advance c) 0 opts of
                Returns p \<Rightarrow> (case p of (v, cursor') \<Rightarrow> Returns v)
              | Throws e \<Rightarrow> Throws e | OutOfFuel \<Rightarrow> OutOfFuel)"
    by (rule top_level_ok_drop_cursor [OF decoder_goodD(5) [OF decoder_at_good]])
       (simp add: decode_fuel_def remaining_def advance_def)
  have B: "top_level_ok opts
             (case decodeObject (decode_fuel c) c 0 opts of
                Returns p \<Rightarrow> (case p of (v, cursor') \<Rightarrow> Returns v)
              | Throws e \<Rightarrow> Throws e | OutOfFuel \<Rightarrow> OutOfFuel)"
    by (rule top_level_ok_drop_cursor [OF decoder_goodD(1) [OF decoder_at_good]])
       (simp add: decode_fuel_def remaining_def)
  have C: "top_level_ok opts
             (if cursor_length c = 1 \<and> \<not> isKeyValueLine first
              then of_result (parsePrimitiveToken (trim (content first)))
              else (case decodeObject (decode_fuel c) c 0 opts of
                      Returns p \<Rightarrow> (case p of (v, cursor') \<Rightarrow> Returns v)
                    | Throws e \<Rightarrow> Throws e | OutOfFuel \<Rightarrow> OutOfFuel))"
    using B
    by (cases "parsePrimitiveToken (trim (content first))")
       (simp_all add: parsePrimitiveToken_error token_error_decode_error)
  show ?thesis
  proof (cases "isArrayHeaderAfterHyphen (content first)")
    case False
    with first C show ?thesis by (simp add: decodeValueFromLines_def)
  next
    case True
    show ?thesis
    proof (cases "parseArrayHeaderLine (content first) DEFAULT_DELIMITER")
      case (Inl e)
      with True first show ?thesis
        by (simp add: decodeValueFromLines_def parseArrayHeaderLine_error token_error_decode_error)
    next
      case (Inr ah)
      show ?thesis
      proof (cases ah)
        case None
        with True Inr first C show ?thesis by (simp add: decodeValueFromLines_def)
      next
        case (Some t)
        obtain h iv where "t = (h, iv)" by (cases t) auto
        with True Inr Some first A [of h iv] show ?thesis by (simp add: decodeValueFromLines_def)
      qed
    qed
  qed
qed

subsection \<open>Blank input\<close>

lemma trim_empty_iff: "trim s = [] \<longleftrightarrow> list_all isWhiteSpace s"
proof
  assume "trim s = []"
  then have "dropWhile isWhiteSpace (rev (dropWhile isWhiteSpace s)) = []"
    by (simp add: trim_def trimEnd_def trimStart_def)
  then have all: "\<forall>x \<in> set (dropWhile isWhiteSpace s). isWhiteSpace x"
    by (metis dropWhile_eq_Nil_conv set_rev)
  have "dropWhile isWhiteSpace s = []"
  proof (rule ccontr)
    assume ne: "dropWhile isWhiteSpace s \<noteq> []"
    then have "\<not> isWhiteSpace (hd (dropWhile isWhiteSpace s))" by (rule hd_dropWhile)
    moreover from ne have "hd (dropWhile isWhiteSpace s) \<in> set (dropWhile isWhiteSpace s)" by simp
    ultimately show False using all by blast
  qed
  then show "list_all isWhiteSpace s" by (simp add: dropWhile_eq_Nil_conv list_all_iff)
next
  assume "list_all isWhiteSpace s"
  then have "dropWhile isWhiteSpace s = []" by (induction s) auto
  then show "trim s = []" unfolding trim_def trimEnd_def trimStart_def
    by (simp del: dropWhile_eq_Nil_conv)
qed

lemma split_on_nonempty: "split_on c s \<noteq> []"
  by (induction s) (auto split: list.splits)

lemma split_on_member: "x \<in> set s \<Longrightarrow> x \<noteq> c \<Longrightarrow> \<exists>l \<in> set (split_on c s). x \<in> set l"
proof (induction s)
  case Nil
  then show ?case by simp
next
  case (Cons y ys)
  show ?case
  proof (cases "x = y")
    case True
    with Cons.prems show ?thesis by (auto split: list.splits)
  next
    case False
    with Cons obtain l where "l \<in> set (split_on c ys)" "x \<in> set l" by auto
    then show ?thesis by (auto split: list.splits)
  qed
qed

lemma blank_line_iff:
  "trim (drop (length (takeWhile (\<lambda>c. c = SPACE) rw)) rw) = [] \<longleftrightarrow> list_all isWhiteSpace rw"
proof -
  have d: "drop (length (takeWhile (\<lambda>c. c = SPACE) rw)) rw = dropWhile (\<lambda>c. c = SPACE) rw"
    by (simp add: dropWhile_eq_drop)
  have "list_all isWhiteSpace (takeWhile (\<lambda>c. c = SPACE) rw)"
    by (induction rw) (simp_all add: isWhiteSpace_def)
  moreover have "rw = takeWhile (\<lambda>c. c = SPACE) rw @ dropWhile (\<lambda>c. c = SPACE) rw" by simp
  ultimately have "list_all isWhiteSpace rw \<longleftrightarrow> list_all isWhiteSpace (dropWhile (\<lambda>c. c = SPACE) rw)"
    by (metis list_all_append)
  then show ?thesis by (simp add: d trim_empty_iff)
qed

lemma toParsedLines_loop_nonblank:
  "\<exists>l \<in> set ls. \<not> list_all isWhiteSpace l \<Longrightarrow> toParsedLines_loop isz st ls i = Inr (ps, bs)
   \<Longrightarrow> ps \<noteq> []"
proof (induction ls arbitrary: i ps bs)
  case Nil
  then show ?case by simp
next
  case (Cons rw rest)
  show ?case
  proof (cases "list_all isWhiteSpace rw")
    case True
    with Cons.prems(1) have ex: "\<exists>l \<in> set rest. \<not> list_all isWhiteSpace l" by auto
    from True Cons.prems(2) obtain ps' bs' where
      "toParsedLines_loop isz st rest (i + 1) = Inr (ps', bs')" "ps = ps'"
      by (cases "toParsedLines_loop isz st rest (i + 1)")
         (auto simp: blank_line_iff Let_def)
    with Cons.IH [OF ex] show ?thesis by blast
  next
    case False
    with Cons.prems(2) show ?thesis
      by (cases "toParsedLines_loop isz st rest (i + 1)")
         (auto simp: blank_line_iff Let_def split: if_splits)
  qed
qed

lemma toParsedLines_loop_error:
  "toParsedLines_loop isz st ls i = Inl e \<Longrightarrow> e \<noteq> EmptyInput"
proof (induction ls arbitrary: i)
  case Nil
  then show ?case by simp
next
  case (Cons rw rest)
  then show ?case
    by (cases "toParsedLines_loop isz st rest (i + 1)")
       (auto simp: Let_def split: if_splits)
qed

lemma decode_error_not_EmptyInput: "decode_error options e \<Longrightarrow> e \<noteq> EmptyInput"
  by (auto simp: decode_error_def token_error_def)

lemma deserialize_nonblank:
  assumes "\<not> list_all isWhiteSpace text"
  shows "deserialize text strct \<noteq> Throws EmptyInput \<and> deserialize text strct \<noteq> OutOfFuel"
proof -
  let ?opts = "\<lparr>opt_indent = DEFAULT_INDENT_SIZE, strict = strct\<rparr>"
  from assms obtain x where x: "x \<in> set text" "\<not> isWhiteSpace x" by (auto simp: list_all_iff)
  then have "x \<noteq> NEWLINE" by (auto simp: isWhiteSpace_def)
  with x obtain l where "l \<in> set (split_on NEWLINE text)" "x \<in> set l"
    using split_on_member by blast
  with x have ex: "\<exists>l \<in> set (split_on NEWLINE text). \<not> list_all isWhiteSpace l"
    by (auto simp: list_all_iff)
  have tr: "trim text \<noteq> []" using assms by (simp add: trim_empty_iff)
  show ?thesis
  proof (cases "toParsedLines_loop DEFAULT_INDENT_SIZE strct (split_on NEWLINE text) 0")
    case (Inl e)
    with tr toParsedLines_loop_error [OF Inl] show ?thesis
      by (simp add: deserialize_def toParsedLines_def)
  next
    case (Inr pb)
    obtain ps bs where pb: "pb = (ps, bs)" by (cases pb) auto
    with Inr ex have ne: "ps \<noteq> []" using toParsedLines_loop_nonblank by blast
    let ?c = "\<lparr>lines = ps, index = 0, blankLines = bs\<rparr>"
    from ne have "peek ?c \<noteq> None" by (simp add: peek_def)
    then have "top_level_ok ?opts (decodeValueFromLines ?c ?opts)"
      by (rule decodeValueFromLines_ok)
    then have "decodeValueFromLines ?c ?opts \<noteq> Throws EmptyInput
               \<and> decodeValueFromLines ?c ?opts \<noteq> OutOfFuel"
      by (cases "decodeValueFromLines ?c ?opts") (auto dest: decode_error_not_EmptyInput)
    with tr Inr pb ne show ?thesis
      by (simp add: deserialize_def toParsedLines_def)
  qed
qed

lemma deserialize_blank:
  "list_all isWhiteSpace text \<Longrightarrow> deserialize text strct = Throws EmptyInput"
  by (simp add: deserialize_def toParsedLines_def trim_empty_iff)

lemma deserialize_fuel_suffices: "deserialize text strct \<noteq> OutOfFuel"
  using deserialize_blank deserialize_nonblank
  by (cases "list_all isWhiteSpace text") auto


subsection \<open>Bracket segments\<close>

lemmas string_defs = trim_def trimStart_def trimEnd_def isWhiteSpace_def startsWith_def
  endsWith_def includes_char_def indexOf_def slice_def isDigit_def isLetter_def
  digit_value_def digits_value_def

text \<open>
  The remainder of a bracket segment: \<open>strip_marker\<close> removes a leading \<^verbatim>\<open>#\<close>, \<open>strip_hint\<close> a
  trailing tab or pipe. \<open>begins_with_integer\<close> holds of a string that starts, after white
  space and at most one sign, with a decimal digit.
\<close>

definition strip_marker :: "jsstring \<Rightarrow> jsstring" where
  "strip_marker s = (if startsWith s [HASH] then drop 1 s else s)"

definition strip_hint :: "jsstring \<Rightarrow> jsstring" where
  "strip_hint s = (if endsWith s TAB \<or> endsWith s PIPE then butlast s else s)"

definition begins_with_integer :: "jsstring \<Rightarrow> bool" where
  "begins_with_integer s =
     (case trimStart s of
        [] \<Rightarrow> False
      | c # r \<Rightarrow> if c = 0x2D \<or> c = 0x2B then r \<noteq> [] \<and> isDigit (hd r) else isDigit c)"

lemma takeWhile_nonempty: "takeWhile P xs = [] \<longleftrightarrow> xs = [] \<or> \<not> P (hd xs)"
  by (cases xs) auto

lemma parseInt_accepts: "(\<exists>n. parseInt s = Some n) = begins_with_integer s"
proof (cases "trimStart s")
  case Nil
  then show ?thesis by (simp add: parseInt_def begins_with_integer_def startsWith_def)
next
  case (Cons c r)
  have "\<not> isDigit 0x2D" "\<not> isDigit 0x2B" by (simp_all add: isDigit_def)
  with Cons show ?thesis
    by (auto simp: parseInt_def begins_with_integer_def startsWith_def Let_def
        takeWhile_nonempty)
qed

lemma parseBracketSegment_accepts:
  "(\<exists>r. parseBracketSegment seg d = Inr r) = begins_with_integer (strip_hint (strip_marker seg))"
proof -
  have "(\<exists>r. parseBracketSegment seg d = Inr r)
        = (\<exists>n. parseInt (strip_hint (strip_marker seg)) = Some n)"
    by (auto simp: parseBracketSegment_def strip_hint_def strip_marker_def Let_def
        split: option.splits)
  then show ?thesis by (simp add: parseInt_accepts)
qed

lemma begins_with_integer_append:
  assumes "begins_with_integer p"
  shows "begins_with_integer (p @ q)"
proof -
  from assms obtain c r where cr: "trimStart p = c # r"
    by (cases "trimStart p") (auto simp: begins_with_integer_def)
  then have "\<exists>x \<in> set p. \<not> isWhiteSpace x"
    by (metis dropWhile_eq_Nil_conv list.distinct(1) trimStart_def)
  then have "trimStart (p @ q) = trimStart p @ q"
    by (auto simp: trimStart_def dropWhile_append1)
  with cr assms show ?thesis by (auto simp: begins_with_integer_def)
qed

lemma begins_with_integer_strip_hint:
  "begins_with_integer (strip_hint s) \<Longrightarrow> begins_with_integer s"
proof (cases "endsWith s TAB \<or> endsWith s PIPE")
  case True
  assume a: "begins_with_integer (strip_hint s)"
  from True have "s \<noteq> []" by (auto simp: endsWith_def)
  then have "s = butlast s @ [last s]" by simp
  with a True begins_with_integer_append [of "butlast s" "[last s]"] show ?thesis
    by (simp add: strip_hint_def)
next
  case False
  assume "begins_with_integer (strip_hint s)"
  with False show ?thesis by (simp add: strip_hint_def)
qed

lemma begins_with_integer_Nil [simp]: "\<not> begins_with_integer []"
  by (simp add: begins_with_integer_def trimStart_def)

lemma begins_with_integer_strip_marker_take:
  assumes "begins_with_integer (strip_marker (take n xs))"
  shows "begins_with_integer (strip_marker xs)"
proof (cases "startsWith (take n xs) [HASH]")
  case True
  then have sx: "startsWith xs [HASH]" and n: "0 < n"
    by (cases xs; cases n; auto simp: startsWith_def)+
  have "drop 1 xs = drop 1 (take n xs) @ drop n xs"
  proof (cases xs)
    case Nil
    then show ?thesis by simp
  next
    case (Cons y ys)
    with n obtain m where "n = Suc m" by (cases n) auto
    with Cons show ?thesis by simp
  qed
  with assms True sx begins_with_integer_append [of "drop 1 (take n xs)" "drop n xs"]
  show ?thesis by (simp add: strip_marker_def)
next
  case False
  with assms have b: "begins_with_integer (take n xs)" by (simp add: strip_marker_def)
  then have "take n xs \<noteq> []" by (metis begins_with_integer_Nil)
  with False have "\<not> startsWith xs [HASH]"
    by (cases xs; cases n; auto simp: startsWith_def)
  moreover from b have "begins_with_integer (take n xs @ drop n xs)"
    by (rule begins_with_integer_append)
  ultimately show ?thesis by (simp add: strip_marker_def)
qed

lemma parseBracketSegment_slice:
  assumes "parseBracketSegment (slice cont (Suc bs) e) d = Inr x"
  shows "begins_with_integer (strip_marker (drop (Suc bs) cont))"
proof -
  from assms have "begins_with_integer (strip_hint (strip_marker (slice cont (Suc bs) e)))"
    using parseBracketSegment_accepts by blast
  then have "begins_with_integer (strip_marker (take (e - Suc bs) (drop (Suc bs) cont)))"
    unfolding slice_def by (rule begins_with_integer_strip_hint)
  then show ?thesis by (rule begins_with_integer_strip_marker_take)
qed

lemma parseArrayHeaderLine_bracket:
  assumes "parseArrayHeaderLine cont d = Inr (Some r)"
  shows "\<exists>bs. indexOf cont OPEN_BRACKET 0 = Some bs
              \<and> begins_with_integer (strip_marker (drop (bs + 1) cont))"
  using assms unfolding parseArrayHeaderLine_def
  by (auto split: if_splits option.splits sum.splits prod.splits
      dest: parseBracketSegment_slice)

subsection \<open>Evaluation\<close>

text \<open>
  Rewrite rules that evaluate the functions on a given input: the definitions of the
  string operations, of the number grammar, of the tokens and of the decoder, and the
  step of the recursion bound at a numeral.
\<close>

lemma bit_length_numeral:
  "bit_length 0 = 0"
  "bit_length (Suc 0) = 1"
  "bit_length (numeral n) = Suc (bit_length (numeral n div 2))"
  by (simp_all add: bit_length.simps [of 0] bit_length.simps [of "Suc 0"]
      bit_length.simps [of "numeral n"])

lemmas decoder_numeral = decoder_step [of "pred_numeral k", folded numeral_eq_Suc] for k

lemmas number_defs = Number_of_string_def nonDecimalIntegerLiteral_def strDecimalLiteral_def
  strUnsignedDecimalLiteral_def exponentPart_def round_number_def binary_exponent_def
  round_half_even_def isNaN_def isFinite_def parseFloat_def List.map_filter_def
  bit_length_numeral

lemmas token_defs = parsePrimitiveToken_def parseStringLiteral_def isNumericLiteral_def
  findClosingQuote_def findUnquotedChar_def parseKeyToken_def parseUnquotedKey_def
  parseQuotedKey_def parseDelimitedValues_def

lemmas header_defs = parseArrayHeaderLine_def header_braceEnd_def header_fields_def
  parseBracketSegment_def parseInt_def

lemmas decode_defs = deserialize_def toParsedLines_def computeDepthFromIndent_def
  decodeValueFromLines_def decode_fuel_def peek_def advance_def atEnd_def cursor_length_def
  isArrayHeaderAfterHyphen_def isObjectFirstFieldAfterHyphen_def isKeyValueLine_def
  of_result_def decodeObject_body_def decodeObject_loop_body_def decodeKeyValuePair_body_def
  keyed_header_def decodeKeyValue_body_def decodeArrayFromHeader_body_def
  decodeListArray_body_def decodeListArray_loop_body_def decodeListItem_body_def
  decodeObjectFromListItem_body_def decodeObjectFromListItem_loop_body_def
  decodeInlinePrimitiveArray_def decodeTabularArray_def decodeTabularRow_def
  assertExpectedCount_def isDataRow_def tabular_row_object_def decoder_numeral

lemmas object_defs = set_property_def define_own_def array_index_def index_below_def
  Object_keys_def get_own_def isPlainObject_def

lemmas validation_defs = isSafeUnquoted_def isBooleanOrNullLiteral_def isNumericLike_def
  matches_decimal_pattern_def matches_leading_zero_pattern_def isValidUnquotedKey_def
  isJsonPrimitive_def isJsonArray_def isJsonObject_def isArrayOfPrimitives_def
  isArrayOfArrays_def isArrayOfObjects_def

lemmas encode_defs = serialize_def encodeValue_def resolveOptions_def encodePrimitive_def
  encodeStringLiteral_def encodeKey_def escapeString_def replaceAll_def join_def
  encodeAndJoinPrimitives_def formatHeader_def push_def pushListItem_def writer_toString_def
  encodeInlineArrayLine_def isTabularArray_def extractTabularHeader_def writeTabularRows_def
  encodeArrayOfObjectsAsTabular_def encodeArrayOfArraysAsListItems_def elements_def
  entries_def encodeObject.simps encodeKeyValuePair.simps encodeArray.simps
  encodeMixedArrayAsListItems.simps encodeObjectAsListItem.simps encodeListItemValue.simps

lemma parsePrimitiveToken_bare:
  assumes "isSafeUnquoted s d"
  shows "parsePrimitiveToken s
         = Inr (if isNumericLiteral s then Num (parseFloat s) else Str s)"
proof -
  from assms have ne: "s \<noteq> []" and tr: "trim s = s"
    and lit: "\<not> isBooleanOrNullLiteral s" and dq: "\<not> includes_char s DOUBLE_QUOTE"
    by (auto simp: isSafeUnquoted_def split: if_splits)
  from ne dq have "\<not> startsWith s [DOUBLE_QUOTE]"
    by (cases s) (auto simp: startsWith_def includes_char_def)
  with ne tr lit show ?thesis
    by (simp add: parsePrimitiveToken_def isBooleanOrNullLiteral_def Let_def)
qed

subsection \<open>Tabular rows\<close>

lemma index_of_None_iff: "index_of c s = None \<longleftrightarrow> c \<notin> set s"
  by (induction s) auto

lemma index_of_Some_iff:
  "index_of c s = Some i \<longleftrightarrow> i < length s \<and> s ! i = c \<and> (\<forall>j<i. s ! j \<noteq> c)"
proof (induction s arbitrary: i)
  case Nil
  then show ?case by simp
next
  case (Cons x xs)
  show ?case
  proof (cases "x = c")
    case True
    then show ?thesis by (cases i) auto
  next
    case False
    show ?thesis
    proof (cases i)
      case 0
      with False show ?thesis by auto
    next
      case (Suc k)
      have "(\<forall>j<Suc k. (x # xs) ! j \<noteq> c) \<longleftrightarrow> (\<forall>j<k. xs ! j \<noteq> c)"
      proof
        assume a: "\<forall>j<Suc k. (x # xs) ! j \<noteq> c"
        show "\<forall>j<k. xs ! j \<noteq> c"
        proof (intro allI impI)
          fix j assume "j < k"
          then have "(x # xs) ! Suc j \<noteq> c" using a by blast
          then show "xs ! j \<noteq> c" by simp
        qed
      next
        assume a: "\<forall>j<k. xs ! j \<noteq> c"
        show "\<forall>j<Suc k. (x # xs) ! j \<noteq> c"
        proof (intro allI impI)
          fix j assume "j < Suc k"
          then show "(x # xs) ! j \<noteq> c" using a False by (cases j) auto
        qed
      qed
      with Suc False Cons.IH [of k] show ?thesis by auto
    qed
  qed
qed

lemma indexOf_0: "indexOf s c 0 = index_of c s"
  by (simp add: indexOf_def option.map_ident)

lemma isDataRow_iff:
  "isDataRow cont d \<longleftrightarrow>
     COLON \<notin> set cont \<or> (\<exists>i<length cont. cont ! i = d \<and> (\<forall>j\<le>i. cont ! j \<noteq> COLON))"
proof (cases "index_of COLON cont")
  case None
  then have "COLON \<notin> set cont" by (simp add: index_of_None_iff)
  with None show ?thesis by (simp add: isDataRow_def indexOf_0)
next
  case (Some cp)
  then have cp: "cp < length cont" "cont ! cp = COLON" "\<forall>j<cp. cont ! j \<noteq> COLON"
    by (simp_all add: index_of_Some_iff)
  then have colon: "COLON \<in> set cont" by (metis nth_mem)
  show ?thesis
  proof (cases "index_of d cont")
    case None
    then have "d \<notin> set cont" by (simp add: index_of_None_iff)
    then have "\<not> (\<exists>i<length cont. cont ! i = d \<and> (\<forall>j\<le>i. cont ! j \<noteq> COLON))"
      by (metis nth_mem)
    with None Some colon show ?thesis by (simp add: isDataRow_def indexOf_0)
  next
    case (Some dp)
    then have dp: "dp < length cont" "cont ! dp = d" "\<forall>j<dp. cont ! j \<noteq> d"
      by (simp_all add: index_of_Some_iff)
    have "dp < cp \<longleftrightarrow> (\<exists>i<length cont. cont ! i = d \<and> (\<forall>j\<le>i. cont ! j \<noteq> COLON))"
    proof
      assume "dp < cp"
      with cp(3) have "\<forall>j\<le>dp. cont ! j \<noteq> COLON" by auto
      with dp show "\<exists>i<length cont. cont ! i = d \<and> (\<forall>j\<le>i. cont ! j \<noteq> COLON)" by blast
    next
      assume "\<exists>i<length cont. cont ! i = d \<and> (\<forall>j\<le>i. cont ! j \<noteq> COLON)"
      then obtain i where i: "cont ! i = d" "\<forall>j\<le>i. cont ! j \<noteq> COLON" by blast
      from i(1) dp(3) have "dp \<le> i" by (metis not_le_imp_less)
      moreover from i(2) cp(2) have "i < cp" by (metis not_le_imp_less)
      ultimately show "dp < cp" by simp
    qed
    with Some \<open>index_of COLON cont = Some cp\<close> colon show ?thesis by (simp add: isDataRow_def indexOf_0)
  qed
qed

lemma decodeTabularArray_loop_row:
  assumes "peek cursor = Some line" "depth line = rowDepth"
    and "int (length objects) < length_h header"
  shows "decodeTabularArray_loop header cursor rowDepth options objects =
           (if \<not> startsWith (content line) LIST_ITEM_PREFIX
               \<and> isDataRow (content line) (delimiter header)
            then (case decodeTabularRow header line options of
                    Inl e \<Rightarrow> Inl e
                  | Inr obj \<Rightarrow>
                      decodeTabularArray_loop header (advance cursor) rowDepth options
                        (objects @ [obj]))
            else Inr (objects, cursor))"
proof -
  from assms(1) have "\<not> atEnd cursor" by (auto simp: peek_def atEnd_def split: if_splits)
  with assms show ?thesis by (subst decodeTabularArray_loop.simps) simp
qed

subsection \<open>Element counts\<close>









subsection \<open>Assignment of properties\<close>






section \<open>Values in the store (\<^verbatim>\<open>utils.ts\<close>)\<close>




















section \<open>Properties\<close>

text \<open>
  C6. For every numeric input, \<^verbatim>\<open>normalizeValue\<close> returns \<open>0\<close> when the input is negative
  zero, \<^verbatim>\<open>null\<close> when the input is \<^verbatim>\<open>NaN\<close>, \<open>+\<infinity>\<close> or \<open>-\<infinity>\<close>, and the number unchanged in
  every other case.
\<close>

theorem C6_normalizeValue_number:
  "normalizeValue (Num NegZero) = Num (Finite 0)
   \<and> normalizeValue (Num NaN) = Null
   \<and> normalizeValue (Num PosInfinity) = Null
   \<and> normalizeValue (Num NegInfinity) = Null
   \<and> normalizeValue (Num (Finite r)) = Num (Finite r)"
  by (simp add: isFinite_def)

text \<open>
  C9. \<^verbatim>\<open>deserialize\<close> raises the empty-input error exactly when its input is empty or consists
  of whitespace only, in strict and in non-strict mode alike.
\<close>

theorem C9_empty_input_error:
  "deserialize text strct = Throws EmptyInput \<longleftrightarrow> list_all isWhiteSpace text"
  using deserialize_blank deserialize_nonblank
  by blast

theorem C9_empty_input_error_witness:
  "deserialize [0x3000, 0x0020, 0x000A, 0xFEFF] True = Throws EmptyInput
   \<and> deserialize (ascii ''a: 1'') True \<noteq> Throws EmptyInput"
  using C9_empty_input_error [of "[0x3000, 0x0020, 0x000A, 0xFEFF]" True]
    C9_empty_input_error [of "ascii ''a: 1''" True]
  by (simp add: isWhiteSpace_def)

text \<open>
  C7. The claim that the header parser accepts a bracket segment only if the whole
  remainder is a non-negative decimal integer does not hold: \<^verbatim>\<open>[-1]:\<close> is read as a header
  of length \<open>-1\<close> and \<^verbatim>\<open>[3x]: a,b,c\<close> as a header of length 3.
\<close>

theorem C7_counterexample:
  "parseArrayHeaderLine (ascii ''[-1]:'') COMMA
     = Inr (Some (\<lparr>key = None, length_h = - 1, delimiter = COMMA, fields_h = None,
                   hasLengthMarker = False\<rparr>, None))
   \<and> parseArrayHeaderLine (ascii ''[3x]: a,b,c'') COMMA
     = Inr (Some (\<lparr>key = None, length_h = 3, delimiter = COMMA, fields_h = None,
                   hasLengthMarker = False\<rparr>, Some (ascii ''a,b,c'')))"
  by (simp add: parseArrayHeaderLine_def header_braceEnd_def header_fields_def
      parseBracketSegment_def parseInt_def string_defs)

text \<open>
  C7, as the code has it. \<^verbatim>\<open>parseBracketSegment\<close> accepts a segment exactly when, after an
  optional leading \<^verbatim>\<open>#\<close> and an optional trailing tab or pipe are removed, the remainder
  begins with a decimal digit, possibly after white space and one sign; what follows the
  digits is not looked at. A line is recognized as an array header only if the text after
  its first \<^verbatim>\<open>[\<close>, with an optional \<^verbatim>\<open>#\<close> removed, begins in this way.
\<close>

theorem C7_bracket_segment:
  "(\<exists>r. parseBracketSegment seg d = Inr r) = begins_with_integer (strip_hint (strip_marker seg))
   \<and> (parseArrayHeaderLine cont d = Inr (Some h) \<longrightarrow>
        (\<exists>bs. indexOf cont OPEN_BRACKET 0 = Some bs
              \<and> begins_with_integer (strip_marker (drop (bs + 1) cont))))"
  using parseBracketSegment_accepts parseArrayHeaderLine_bracket by blast

theorem C7_bracket_segment_witness:
  "(\<exists>r. parseBracketSegment (ascii ''#2|'') COMMA = Inr r)
   \<and> (\<exists>bs. indexOf (ascii ''k[#2]: a,b'') OPEN_BRACKET 0 = Some bs
           \<and> begins_with_integer (strip_marker (drop (bs + 1) (ascii ''k[#2]: a,b''))))"
  using C7_bracket_segment [of "ascii ''#2|''" COMMA "ascii ''k[#2]: a,b''"
      "(\<lparr>key = Some (ascii ''k''), length_h = 2, delimiter = COMMA, fields_h = None,
         hasLengthMarker = True\<rparr>, Some (ascii ''a,b''))"]
  by (simp add: parseArrayHeaderLine_def header_braceEnd_def header_fields_def
      parseBracketSegment_def parseInt_def string_defs
      strip_hint_def strip_marker_def begins_with_integer_def)

text \<open>
  C5. The emitter writes a string bare exactly when \<^verbatim>\<open>isSafeUnquoted\<close> holds of it, but the
  parser does not read every bare string back: the string \<^verbatim>\<open>.5\<close> passes \<^verbatim>\<open>isSafeUnquoted\<close>,
  whose pattern for numbers asks for a digit before the point, is written bare, and is
  read by \<^verbatim>\<open>parsePrimitiveToken\<close>, which asks \<^verbatim>\<open>Number\<close>, as the number one half.
\<close>

theorem C5_bare_string_read_as_number:
  "isSafeUnquoted (ascii ''.5'') COMMA
   \<and> encodeStringLiteral (ascii ''.5'') COMMA = ascii ''.5''
   \<and> parsePrimitiveToken (encodeStringLiteral (ascii ''.5'') COMMA) = Inr (Num (Finite (1 / 2)))
   \<and> isSafeUnquoted (ascii ''+5'') COMMA
   \<and> parsePrimitiveToken (encodeStringLiteral (ascii ''+5'') COMMA) = Inr (Num (Finite 5))"
  by (simp add: encode_defs validation_defs token_defs number_defs string_defs Let_def)

theorem C5_bare_string_read_as_number_witness:
  "parsePrimitiveToken (encodeStringLiteral (ascii ''.5'') COMMA) \<noteq> Inr (Str (ascii ''.5''))"
  using C5_bare_string_read_as_number by (elim conjE) simp

text \<open>
  C1. \<^verbatim>\<open>deserialize (serialize v)\<close> is not \<^verbatim>\<open>normalizeValue v\<close> for every value of the data
  model, whatever \<^verbatim>\<open>String\<close> does on numbers (\<open>S\<close>): the empty object is written as the empty
  text, which \<^verbatim>\<open>deserialize\<close> refuses; an array nested three deep loses its content, since
  \<^verbatim>\<open>encodeListItemValue\<close> writes nothing for an array that holds an array; the string \<^verbatim>\<open>.5\<close>
  comes back as a number. Each of the three values is its own normal form.
\<close>

theorem C1_round_trip_fails:
  "deserialize (serialize S (Obj ObjectPrototype []) None) False = Throws EmptyInput
   \<and> normalizeValue (Obj ObjectPrototype []) = Obj ObjectPrototype []
   \<and> deserialize (serialize S (Arr [Arr [Arr [Str (ascii ''a'')]]]) None) False = Returns (Arr [])
   \<and> normalizeValue (Arr [Arr [Arr [Str (ascii ''a'')]]]) = Arr [Arr [Arr [Str (ascii ''a'')]]]
   \<and> deserialize (serialize S (Str (ascii ''.5'')) None) False = Returns (Num (Finite (1 / 2)))
   \<and> normalizeValue (Str (ascii ''.5'')) = Str (ascii ''.5'')"
  by (simp add: encode_defs validation_defs object_defs decode_defs header_defs token_defs
      number_defs string_defs Let_def nat_to_string.simps decodeTabularArray_loop.simps
      del: decoder_at.simps)

theorem C1_round_trip_fails_witness:
  "deserialize (serialize (\<lambda>n. []) (Obj ObjectPrototype []) None) False
     \<noteq> Returns (normalizeValue (Obj ObjectPrototype []))"
  using C1_round_trip_fails [of "\<lambda>n. []"] by simp

text \<open>
  C3. The claim that a line at the row depth is a data row exactly when it has no colon or
  its first unquoted delimiter comes before its first colon does not hold. The line
  \<^verbatim>\<open>- x\<close> has no colon and is not read as a row: the array comes back empty. In the line
  \<^verbatim>\<open>"x,y": 1\<close> no delimiter stands outside the quotes, yet \<^verbatim>\<open>isDataRow\<close> holds of it, the line
  is read as a row, and its one value is refused.
\<close>

theorem C3_counterexample:
  "deserialize (ascii ''[1]{a}:'' @ [NEWLINE] @ ascii ''  - x'') False = Returns (Arr [])
   \<and> isDataRow ([DOUBLE_QUOTE] @ ascii ''x,y'' @ [DOUBLE_QUOTE] @ ascii '': 1'') COMMA
   \<and> findUnquotedChar ([DOUBLE_QUOTE] @ ascii ''x,y'' @ [DOUBLE_QUOTE] @ ascii '': 1'') COMMA 0
       = None
   \<and> deserialize (ascii ''[1]{a}:'' @ [NEWLINE] @ ascii ''  '' @ [DOUBLE_QUOTE] @ ascii ''x,y''
                    @ [DOUBLE_QUOTE] @ ascii '': 1'') False
       = Throws UnexpectedAfterClosingQuote"
  by (simp add: decode_defs header_defs token_defs number_defs string_defs object_defs Let_def
      decodeTabularArray_loop.simps del: decoder_at.simps)

text \<open>
  C3, as the code has it. \<^verbatim>\<open>isDataRow\<close> holds of a content exactly when it has no colon or
  some occurrence of the delimiter, inside or outside quotes, has no colon before it. While
  fewer rows than the header declares have been read, a line at the row depth is read as a
  row exactly when it does not start with the list item prefix and \<^verbatim>\<open>isDataRow\<close> holds of
  it; any other line ends the tabular body.
\<close>

theorem C3_data_row:
  "(isDataRow cont d \<longleftrightarrow>
      COLON \<notin> set cont \<or> (\<exists>i<length cont. cont ! i = d \<and> (\<forall>j\<le>i. cont ! j \<noteq> COLON)))
   \<and> (peek cursor = Some line \<and> depth line = rowDepth
        \<and> int (length objects) < length_h header \<longrightarrow>
       decodeTabularArray_loop header cursor rowDepth options objects =
         (if \<not> startsWith (content line) LIST_ITEM_PREFIX
             \<and> isDataRow (content line) (delimiter header)
          then (case decodeTabularRow header line options of
                  Inl e \<Rightarrow> Inl e
                | Inr obj \<Rightarrow>
                    decodeTabularArray_loop header (advance cursor) rowDepth options
                      (objects @ [obj]))
          else Inr (objects, cursor)))"
  using isDataRow_iff decodeTabularArray_loop_row by blast

theorem C3_data_row_witness:
  "isDataRow (ascii ''a:b,c'') COMMA = False
   \<and> decodeTabularArray_loop
        \<lparr>key = None, length_h = 1, delimiter = COMMA, fields_h = Some [ascii ''a''],
          hasLengthMarker = False\<rparr>
        \<lparr>lines = [\<lparr>raw = ascii ''  x:1'', indent = 2, content = ascii ''x:1'', depth = 1,
                    lineNumber = 2\<rparr>], index = 0, blankLines = []\<rparr>
        1 \<lparr>opt_indent = 2, strict = True\<rparr> []
      = Inr ([], \<lparr>lines = [\<lparr>raw = ascii ''  x:1'', indent = 2, content = ascii ''x:1'',
                              depth = 1, lineNumber = 2\<rparr>], index = 0, blankLines = []\<rparr>)"
  using C3_data_row [of "ascii ''a:b,c''" COMMA
      "\<lparr>lines = [\<lparr>raw = ascii ''  x:1'', indent = 2, content = ascii ''x:1'', depth = 1,
                  lineNumber = 2\<rparr>], index = 0, blankLines = []\<rparr>"
      "\<lparr>raw = ascii ''  x:1'', indent = 2, content = ascii ''x:1'', depth = 1, lineNumber = 2\<rparr>"
      1 "[]"
      "\<lparr>key = None, length_h = 1, delimiter = COMMA, fields_h = Some [ascii ''a''],
        hasLengthMarker = False\<rparr>"
      "\<lparr>opt_indent = 2, strict = True\<rparr>"]
  by (simp add: peek_def isDataRow_def string_defs)










end
